theory Spec2Isabelle
  imports Main "HOL-Library.Word" "HOL-Library.List_Lexorder" "HOL-Library.Char_ord"
    "HOL-Library.AList"
begin

unbundle bit_operations_syntax

section \<open>Queuefka: a segmented append-only log\<close>

text \<open>
  A shallow embedding of \<^verbatim>\<open>queuefka.go\<close>. Go's \<^verbatim>\<open>uint32\<close> and \<^verbatim>\<open>uint64\<close> are
  words (arithmetic wraps), byte slices are lists of 8-bit words, strings are byte
  strings. The operating system (files, directories, the glob of a directory), the
  \<^verbatim>\<open>bufio\<close> reader and writer and the checksum are modelled below as far as the
  package uses them; the methods of \<^verbatim>\<open>Reader\<close> and \<^verbatim>\<open>Writer\<close> take the file system
  and the receiver and return the updated ones. A path names a file by its spelling:
  two spellings of one path, links and the working directory are not modelled.
\<close>

type_synonym byte = "8 word"
type_synonym uint32 = "32 word"
type_synonym uint64 = "64 word"

text \<open>
  The four error values of the package, and the errors of the libraries it calls:
  \<^verbatim>\<open>io.EOF\<close>, \<^verbatim>\<open>filepath.ErrBadPattern\<close>, and the operating system's errors on a closed
  file, a negative seek offset, a missing file, a path without permission and a path
  component that is not a directory.
\<close>

datatype error =
    ErrInvalidTopic | ErrEndOfLog | ErrOutOfBounds | ErrBadChecksum
  | EOF | ErrBadPattern
  | ErrClosed | EINVAL | ENOENT | EACCES | ENOTDIR

text \<open>The errors that come from a failed file system operation.\<close>

fun io_failure :: "error \<Rightarrow> bool" where
  "io_failure ErrClosed = True"
| "io_failure EINVAL = True"
| "io_failure ENOENT = True"
| "io_failure EACCES = True"
| "io_failure ENOTDIR = True"
| "io_failure _ = False"

text \<open>
  A call returns, panics (a nil dereference, a slice out of range, \<^verbatim>\<open>log.Panic\<close>) or
  blocks for ever (\<^verbatim>\<open>Lock\<close> on a mutex that nobody will unlock). The fourth outcome
  marks a call whose course is not determined here: it depends on the glob of a topic
  path that the model of the file system does not cover (see \<open>Glob_slab\<close> below).
\<close>

datatype 'a outcome = Return 'a | Panic | Blocked | Unmodelled

subsection \<open>Little-endian words\<close>

text \<open>\<^verbatim>\<open>binary.LittleEndian.PutUint32\<close> and \<^verbatim>\<open>binary.LittleEndian.Uint32\<close>.\<close>

definition PutUint32 :: "uint32 \<Rightarrow> byte list" where
  "PutUint32 v = [ucast v, ucast (drop_bit 8 v), ucast (drop_bit 16 v), ucast (drop_bit 24 v)]"

definition Uint32 :: "byte list \<Rightarrow> uint32" where
  "Uint32 b = ucast (b ! 0) OR push_bit 8 (ucast (b ! 1)) OR push_bit 16 (ucast (b ! 2))
              OR push_bit 24 (ucast (b ! 3))"

subsection \<open>The checksum\<close>

text \<open>
  \<^verbatim>\<open>xxhash.Checksum32\<close> of \<^verbatim>\<open>github.com/vova616/xxhash\<close> is the 32-bit xxHash with seed 0:
  four accumulators over 16-byte stripes when the input has 16 bytes or more, then the
  remaining 4-byte words, then the remaining bytes, then the final mix (\<open>xxh32\<close>). On
  an empty slice the function panics.
\<close>

definition PRIME32_1 :: uint32 where "PRIME32_1 = 2654435761"
definition PRIME32_2 :: uint32 where "PRIME32_2 = 2246822519"
definition PRIME32_3 :: uint32 where "PRIME32_3 = 3266489917"
definition PRIME32_4 :: uint32 where "PRIME32_4 = 668265263"
definition PRIME32_5 :: uint32 where "PRIME32_5 = 374761393"

definition rotl32 :: "uint32 \<Rightarrow> nat \<Rightarrow> uint32" where
  "rotl32 x r = push_bit r x OR drop_bit (32 - r) x"

definition xx_round :: "uint32 \<Rightarrow> uint32 \<Rightarrow> uint32" where
  "xx_round acc inp = rotl32 (acc + inp * PRIME32_2) 13 * PRIME32_1"

function xx_stripes :: "byte list \<Rightarrow> uint32 \<times> uint32 \<times> uint32 \<times> uint32
                   \<Rightarrow> (uint32 \<times> uint32 \<times> uint32 \<times> uint32) \<times> byte list" where
  "xx_stripes p (v1, v2, v3, v4) =
     (if 16 \<le> length p
      then xx_stripes (drop 16 p)
             (xx_round v1 (Uint32 (take 4 p)), xx_round v2 (Uint32 (take 4 (drop 4 p))),
              xx_round v3 (Uint32 (take 4 (drop 8 p))), xx_round v4 (Uint32 (take 4 (drop 12 p))))
      else ((v1, v2, v3, v4), p))"
  by pat_completeness auto
termination
  by (relation "measure (\<lambda>(p, v). length p)") auto

fun xx_tail :: "byte list \<Rightarrow> uint32 \<Rightarrow> uint32" where
  "xx_tail (a0 # a1 # a2 # a3 # p) h =
     xx_tail p (rotl32 (h + Uint32 [a0, a1, a2, a3] * PRIME32_3) 17 * PRIME32_4)"
| "xx_tail (a # p) h = xx_tail p (rotl32 (h + ucast a * PRIME32_5) 11 * PRIME32_1)"
| "xx_tail [] h = h"

definition xx_avalanche :: "uint32 \<Rightarrow> uint32" where
  "xx_avalanche h0 =
     (let h1 = (h0 XOR drop_bit 15 h0) * PRIME32_2;
          h2 = (h1 XOR drop_bit 13 h1) * PRIME32_3
      in h2 XOR drop_bit 16 h2)"

definition xxh32 :: "byte list \<Rightarrow> uint32" where
  "xxh32 d =
     (let (h, p) =
            (if 16 \<le> length d
             then (case xx_stripes d (PRIME32_1 + PRIME32_2, PRIME32_2, 0, 0 - PRIME32_1) of
                     ((v1, v2, v3, v4), p) \<Rightarrow>
                       (rotl32 v1 1 + rotl32 v2 7 + rotl32 v3 12 + rotl32 v4 18, p))
             else (PRIME32_5, d))
      in xx_avalanche (xx_tail p (h + of_nat (length d))))"

definition Checksum32 :: "byte list \<Rightarrow> uint32 outcome" where
  "Checksum32 d = (if d = [] then Panic else Return (xxh32 d))"

subsection \<open>Segment names\<close>

text \<open>
  \<^verbatim>\<open>fmt.Sprintf("%020d", n)\<close> for a \<^verbatim>\<open>uint64\<close>: the decimal digits of \<open>n\<close>, padded with
  zeros to 20 characters (a \<^verbatim>\<open>uint64\<close> has at most 20 digits).
\<close>

fun zpad :: "nat \<Rightarrow> nat \<Rightarrow> string" where
  "zpad 0 n = []"
| "zpad (Suc k) n = zpad k (n div 10) @ [char_of (48 + n mod 10)]"

definition slab_name :: "string \<Rightarrow> uint64 \<Rightarrow> string" where
  "slab_name topic address = topic @ ''/'' @ zpad 20 (unat address) @ ''.slab''"

text \<open>
  \<^verbatim>\<open>strconv.Atoi\<close>, as the package uses it: the error is dropped at both call sites, so
  only the returned value is modelled. A string that is not an optionally signed
  sequence of decimal digits gives 0; a value out of the range of the 64-bit \<^verbatim>\<open>int\<close>
  gives the nearest bound (\<open>9223372036854775808\<close> is \<open>2 ^ 63\<close>).
\<close>

definition is_digit :: "char \<Rightarrow> bool" where
  "is_digit c = (48 \<le> (of_char c :: int) \<and> (of_char c :: int) \<le> 57)"

fun digits_value :: "string \<Rightarrow> int \<Rightarrow> int option" where
  "digits_value [] acc = Some acc"
| "digits_value (c # cs) acc =
     (if is_digit c then digits_value cs (10 * acc + (of_char c - 48)) else None)"

definition Atoi :: "string \<Rightarrow> int" where
  "Atoi s =
     (let neg = (s \<noteq> [] \<and> hd s = CHR ''-'');
          ds = (if s \<noteq> [] \<and> (hd s = CHR ''+'' \<or> hd s = CHR ''-'') then tl s else s)
      in if ds = [] then 0
         else (case digits_value ds 0 of
                 None \<Rightarrow> 0
               | Some n \<Rightarrow>
                   if neg then (if 9223372036854775808 < n then - 9223372036854775808 else - n)
                   else (if 9223372036854775808 \<le> n then 9223372036854775807 else n)))"

text \<open>The conversion \<^verbatim>\<open>uint64(d)\<close> of an \<^verbatim>\<open>int\<close>.\<close>

definition uint64_of_int :: "int \<Rightarrow> uint64" where
  "uint64_of_int d = word_of_int d"

subsection \<open>The file system\<close>

text \<open>
  The state of the file system: the regular files (path and contents, in an association
  list), the directories that exist, and the paths the process has no permission to
  open, create, list or enter.
\<close>

record filesys =
  files :: "(string \<times> byte list) list"
  dirs :: "string list"
  denied :: "string list"

definition contents :: "filesys \<Rightarrow> string \<Rightarrow> byte list" where
  "contents fs name = (case map_of (files fs) name of None \<Rightarrow> [] | Some c \<Rightarrow> c)"

text \<open>An open file (\<^verbatim>\<open>*os.File\<close>): its path, its cursor, whether it was opened with
  \<^verbatim>\<open>O_APPEND\<close>, and whether it has been closed.\<close>

record os_file =
  fpath :: string
  fpos :: nat
  fappend :: bool
  fclosed :: bool

text \<open>The three flag combinations the package opens files with.\<close>

datatype flags = O_RDONLY | O_APPEND_RDWR | O_CREATE_RDWR

definition dirname :: "string \<Rightarrow> string" where
  "dirname p = rev (tl (dropWhile (\<lambda>c. c \<noteq> CHR ''/'') (rev p)))"

definition basename :: "string \<Rightarrow> string" where
  "basename p = rev (takeWhile (\<lambda>c. c \<noteq> CHR ''/'') (rev p))"

text \<open>
  \<^verbatim>\<open>os.OpenFile\<close>: a path without permission, or in a directory without permission,
  gives \<open>EACCES\<close>; a missing file gives \<open>ENOENT\<close> unless \<^verbatim>\<open>O_CREATE\<close> is set and its
  directory exists, and then the file is created empty. The cursor starts at 0; nothing
  is truncated.
\<close>

definition OpenFile :: "filesys \<Rightarrow> string \<Rightarrow> flags \<Rightarrow> (error + os_file) \<times> filesys" where
  "OpenFile fs name flag =
     (let fp = \<lparr>fpath = name, fpos = 0, fappend = (flag = O_APPEND_RDWR), fclosed = False\<rparr>
      in if name \<in> set (denied fs) \<or> dirname name \<in> set (denied fs) then (Inl EACCES, fs)
         else if map_of (files fs) name \<noteq> None then (Inr fp, fs)
         else if flag = O_CREATE_RDWR \<and> dirname name \<in> set (dirs fs)
              then (Inr fp, fs\<lparr>files := files fs @ [(name, [])]\<rparr>)
         else (Inl ENOENT, fs))"

text \<open>\<^verbatim>\<open>os.MkdirAll\<close> of the topic directory (its parents are not modelled).\<close>

definition MkdirAll :: "filesys \<Rightarrow> string \<Rightarrow> error option \<times> filesys" where
  "MkdirAll fs path =
     (if path \<in> set (dirs fs) then (None, fs)
      else if path \<in> set (denied fs) then (Some EACCES, fs)
      else if map_of (files fs) path \<noteq> None then (Some ENOTDIR, fs)
      else (None, fs\<lparr>dirs := dirs fs @ [path]\<rparr>))"

text \<open>\<^verbatim>\<open>stat.Size()\<close> of an open file.\<close>

definition Size :: "filesys \<Rightarrow> os_file \<Rightarrow> nat" where
  "Size fs fp = length (contents fs (fpath fp))"

text \<open>
  \<^verbatim>\<open>(*os.File).Read\<close> into a slice of \<open>n\<close> bytes: the bytes from the cursor on, at most
  \<open>n\<close>; \<^verbatim>\<open>io.EOF\<close> when there are none; an error on a closed file.
\<close>

definition file_Read :: "filesys \<Rightarrow> os_file \<Rightarrow> nat \<Rightarrow> (byte list \<times> error option) \<times> os_file" where
  "file_Read fs fp n =
     (if fclosed fp then (([], Some ErrClosed), fp)
      else if n = 0 then (([], None), fp)
      else (let bs = take n (drop (fpos fp) (contents fs (fpath fp)))
            in if bs = [] then (([], Some EOF), fp)
               else ((bs, None), fp\<lparr>fpos := fpos fp + length bs\<rparr>)))"

text \<open>
  \<^verbatim>\<open>(*os.File).Write\<close>: at the end of the file with \<^verbatim>\<open>O_APPEND\<close>, else at the cursor,
  over what is there (a cursor beyond the end leaves a gap of zeros). The result is
  the number of bytes written and the error.
\<close>

definition file_Write ::
  "filesys \<Rightarrow> os_file \<Rightarrow> byte list \<Rightarrow> (nat \<times> error option) \<times> os_file \<times> filesys" where
  "file_Write fs fp b =
     (if fclosed fp then ((0, Some ErrClosed), fp, fs)
      else (let c = contents fs (fpath fp);
                at = (if fappend fp then length c else fpos fp);
                c' = take at c @ replicate (at - length c) 0 @ b @ drop (at + length b) c
            in ((length b, None), fp\<lparr>fpos := at + length b\<rparr>,
                fs\<lparr>files := AList.update (fpath fp) c' (files fs)\<rparr>)))"

text \<open>
  \<^verbatim>\<open>(*os.File).Seek(offset, os.SEEK_SET)\<close> with an \<^verbatim>\<open>int64\<close> offset: a negative offset
  is refused (\<open>EINVAL\<close>) and the cursor stays; the result is the new cursor, 0 on error.
\<close>

definition Seek_SET :: "os_file \<Rightarrow> int \<Rightarrow> (nat \<times> error option) \<times> os_file" where
  "Seek_SET fp offset =
     (if fclosed fp then ((0, Some ErrClosed), fp)
      else if offset < 0 then ((0, Some EINVAL), fp)
      else ((nat offset, None), fp\<lparr>fpos := nat offset\<rparr>))"

text \<open>\<^verbatim>\<open>(*os.File).Seek(0, os.SEEK_CUR)\<close>: the cursor.\<close>

definition Seek_CUR0 :: "os_file \<Rightarrow> nat \<times> error option" where
  "Seek_CUR0 fp = (if fclosed fp then (0, Some ErrClosed) else (fpos fp, None))"

definition file_Close :: "os_file \<Rightarrow> error option \<times> os_file" where
  "file_Close fp = (if fclosed fp then (Some ErrClosed, fp) else (None, fp\<lparr>fclosed := True\<rparr>))"

subsection \<open>The glob of a topic directory\<close>

text \<open>
  The entries of a directory, as paths, and the names that end in a given suffix.
\<close>

definition in_dir :: "string \<Rightarrow> string \<Rightarrow> bool" where
  "in_dir dir p = (take (length dir + 1) p = dir @ ''/''
                   \<and> CHR ''/'' \<notin> set (drop (length dir + 1) p))"

definition has_suffix :: "string \<Rightarrow> string \<Rightarrow> bool" where
  "has_suffix suf p = (length suf \<le> length p \<and> drop (length p - length suf) p = suf)"

text \<open>
  The topic is a string that the package puts in front of \<^verbatim>\<open>/*.slab\<close> to make the
  pattern of a glob. A plain topic is a path in the form that \<^verbatim>\<open>filepath.Clean\<close>
  returns (no empty component, no \<^verbatim>\<open>.\<close> or \<^verbatim>\<open>..\<close> component, no trailing slash) and
  without the metacharacters of a pattern, which are \<^verbatim>\<open>*\<close>, \<^verbatim>\<open>?\<close>, \<^verbatim>\<open>[\<close> and the
  backslash: for the glob it names one directory.
\<close>

fun components :: "string \<Rightarrow> string list" where
  "components [] = [[]]"
| "components (c # cs) =
     (if c = CHR ''/'' then [] # components cs
      else (case components cs of [] \<Rightarrow> [[c]] | x # xs \<Rightarrow> (c # x) # xs))"

definition clean_path :: "string \<Rightarrow> bool" where
  "clean_path p =
     (let cs = components p;
          names = (if hd cs = [] then tl cs else cs)
      in names \<noteq> [] \<and> list_all (\<lambda>n. n \<noteq> [] \<and> n \<noteq> ''.'' \<and> n \<noteq> ''..'') names)"

definition metachar :: "char \<Rightarrow> bool" where
  "metachar c = (c = CHR ''*'' \<or> c = CHR ''?'' \<or> c = CHR ''['' \<or> c = CHR 0x5C)"

definition plain_topic :: "string \<Rightarrow> bool" where
  "plain_topic topic = (clean_path topic \<and> list_all (\<lambda>c. \<not> metachar c) topic)"

text \<open>
  A topic with a \<^verbatim>\<open>[\<close> and with neither a \<^verbatim>\<open>]\<close> nor a backslash: in the pattern the
  character class that the \<^verbatim>\<open>[\<close> opens is never closed.
\<close>

definition unclosed_class :: "string \<Rightarrow> bool" where
  "unclosed_class topic =
     (CHR ''['' \<in> set topic \<and> CHR '']'' \<notin> set topic \<and> CHR 0x5C \<notin> set topic)"

text \<open>
  \<^verbatim>\<open>filepath.Glob(topic + "/*.slab")\<close>. The glob first checks the pattern, and a class
  that is never closed makes it malformed: the result is \<^verbatim>\<open>ErrBadPattern\<close>, the only
  error of the glob. For a plain topic the glob lists one directory. It ignores the
  errors of the file system, so a directory that does not exist or cannot be read
  matches nothing; else the matches are the entries of the directory whose name ends in
  \<^verbatim>\<open>.slab\<close>, as paths, sorted as strings.

  The glob is not determined here for the other topics (it interprets the
  metacharacters of the topic, and returns the paths it finds in clean form), nor for
  a directory with a sub-directory whose name ends in \<^verbatim>\<open>.slab\<close> (the glob lists it with
  the files): the outcome is \<open>Unmodelled\<close>.
\<close>

definition Glob_slab :: "filesys \<Rightarrow> string \<Rightarrow> (error + string list) outcome" where
  "Glob_slab fs topic =
     (if unclosed_class topic then Return (Inl ErrBadPattern)
      else if \<not> plain_topic topic then Unmodelled
      else if topic \<notin> set (dirs fs) \<or> topic \<in> set (denied fs) then Return (Inr [])
      else if list_ex (\<lambda>p. in_dir topic p \<and> has_suffix ''.slab'' p) (dirs fs) then Unmodelled
      else Return (Inr (sort (filter (\<lambda>p. in_dir topic p \<and> has_suffix ''.slab'' p)
                                     (map fst (files fs))))))"

subsection \<open>Buffered input and output\<close>

text \<open>
  \<^verbatim>\<open>bufio.Reader\<close> with its default buffer of 4096 bytes: the bytes it holds and has not
  handed out, and whether the file it wraps is still the one the \<^verbatim>\<open>Reader\<close> of the
  package points to (\<^verbatim>\<open>Seek\<close> closes that file before it replaces it, so a reader that
  is not live wraps a closed file).
\<close>

record bufio_Reader =
  r_buf :: "byte list"
  r_live :: bool

definition defaultBufSize :: nat where
  "defaultBufSize = 4096"

text \<open>
  \<^verbatim>\<open>(*bufio.Reader).Read\<close> into a slice of \<open>n\<close> bytes: from the buffer if it holds
  something; else one read of the file, into the slice itself when it is at least as
  large as the buffer and into the buffer otherwise.
\<close>

definition bufio_Read ::
  "filesys \<Rightarrow> bufio_Reader \<Rightarrow> os_file \<Rightarrow> nat
   \<Rightarrow> (byte list \<times> error option) \<times> bufio_Reader \<times> os_file" where
  "bufio_Read fs b fp n =
     (if n = 0 then
        (if r_buf b \<noteq> [] then (([], None), b, fp)
         else (([], snd (fst (file_Read fs fp 0))), b, snd (file_Read fs fp 0)))
      else if r_buf b = [] then
        (if defaultBufSize \<le> n then
           (case file_Read fs fp n of ((bs, err), fp') \<Rightarrow> ((bs, err), b, fp'))
         else
           (case file_Read fs fp defaultBufSize of
              ((bs, err), fp') \<Rightarrow>
                if bs = [] then (([], err), b, fp')
                else ((take n bs, None), b\<lparr>r_buf := drop n bs\<rparr>, fp')))
      else ((take n (r_buf b), None), b\<lparr>r_buf := drop n (r_buf b)\<rparr>, fp))"

text \<open>
  \<^verbatim>\<open>bufio.Writer\<close> with its default buffer of 4096 bytes: the bytes not yet written to
  the file, and its sticky error.
\<close>

record bufio_Writer =
  w_buf :: "byte list"
  w_err :: "error option"

definition bufio_Flush ::
  "filesys \<Rightarrow> bufio_Writer \<Rightarrow> os_file \<Rightarrow> error option \<times> bufio_Writer \<times> os_file \<times> filesys" where
  "bufio_Flush fs b fp =
     (if w_err b \<noteq> None then (w_err b, b, fp, fs)
      else if w_buf b = [] then (None, b, fp, fs)
      else (case file_Write fs fp (w_buf b) of
              ((n, err), fp', fs') \<Rightarrow>
                if err \<noteq> None then (err, b\<lparr>w_buf := drop n (w_buf b), w_err := err\<rparr>, fp', fs')
                else (None, b\<lparr>w_buf := []\<rparr>, fp', fs')))"

text \<open>
  The loop of \<^verbatim>\<open>(*bufio.Writer).Write\<close>: while the data does not fit and no error is
  pending, write it to the file directly if the buffer is empty, else fill the buffer
  and flush it. The last argument counts the bytes accepted so far.
\<close>

function bufio_Write_loop ::
  "filesys \<Rightarrow> bufio_Writer \<Rightarrow> os_file \<Rightarrow> byte list \<Rightarrow> nat
   \<Rightarrow> filesys \<times> bufio_Writer \<times> os_file \<times> byte list \<times> nat" where
  "bufio_Write_loop fs b fp p nn =
     (if defaultBufSize - length (w_buf b) < length p \<and> w_err b = None then
        (if w_buf b = [] then
           (case file_Write fs fp p of
              ((n, err), fp', fs') \<Rightarrow>
                bufio_Write_loop fs' (b\<lparr>w_err := err\<rparr>) fp' (drop n p) (nn + n))
         else
           (let n = defaultBufSize - length (w_buf b) in
            case bufio_Flush fs (b\<lparr>w_buf := w_buf b @ take n p\<rparr>) fp of
              (err, b', fp', fs') \<Rightarrow> bufio_Write_loop fs' b' fp' (drop n p) (nn + n)))
      else (fs, b, fp, p, nn))"
  by pat_completeness auto
termination
  by (relation "measures [\<lambda>(fs, b, fp, p, nn). if w_err b = None then 1 else 0,
                          \<lambda>(fs, b, fp, p, nn). length p,
                          \<lambda>(fs, b, fp, p, nn). length (w_buf b)]")
     (auto simp: file_Write_def bufio_Flush_def Let_def defaultBufSize_def
           split: if_splits prod.splits)

declare bufio_Write_loop.simps [simp del]

definition bufio_Write ::
  "filesys \<Rightarrow> bufio_Writer \<Rightarrow> os_file \<Rightarrow> byte list
   \<Rightarrow> (nat \<times> error option) \<times> bufio_Writer \<times> os_file \<times> filesys" where
  "bufio_Write fs b fp p =
     (case bufio_Write_loop fs b fp p 0 of
        (fs', b', fp', p', nn) \<Rightarrow>
          if w_err b' \<noteq> None then ((nn, w_err b'), b', fp', fs')
          else ((nn + length p', None), b'\<lparr>w_buf := w_buf b' @ p'\<rparr>, fp', fs'))"

subsection \<open>Segment files of a topic\<close>

text \<open>Sequencing of calls: when the first call does not return, its outcome is the
  result.\<close>

fun bind_outcome :: "'a outcome \<Rightarrow> ('a \<Rightarrow> 'b outcome) \<Rightarrow> 'b outcome" where
  "bind_outcome (Return x) f = f x"
| "bind_outcome Panic f = Panic"
| "bind_outcome Blocked f = Blocked"
| "bind_outcome Unmodelled f = Unmodelled"

text \<open>\<^verbatim>\<open>SlabFiles\<close>: the names of all slab files of the topic; \<^verbatim>\<open>log.Panic\<close> on an error of
  the glob.\<close>

definition SlabFiles :: "filesys \<Rightarrow> string \<Rightarrow> string list outcome" where
  "SlabFiles fs topic =
     bind_outcome (Glob_slab fs topic) (\<lambda>r.
       case r of
         Inl err \<Rightarrow> Panic
       | Inr names \<Rightarrow> Return names)"

subsection \<open>Reader\<close>

record Reader =
  rd_topic :: string
  rd_base :: uint64
  rd_fp :: "os_file option"
  rd_rd :: "bufio_Reader option"

text \<open>
  The search loop of \<^verbatim>\<open>Seek\<close> over the slab files: the 20 characters before the
  extension are parsed as the base address (slicing a path shorter than 25 characters
  panics); the loop stops at the first base above the address, and otherwise records
  the file and its base.
\<close>

fun search_slabs :: "string list \<Rightarrow> uint64 \<Rightarrow> string \<times> uint64 \<Rightarrow> (string \<times> uint64) outcome" where
  "search_slabs [] address (slabFile, base) = Return (slabFile, base)"
| "search_slabs (s # slabs) address (slabFile, base) =
     (if length s < 25 then Panic
      else (let d = Atoi (take 20 (drop (length s - 25) s))
            in if address < uint64_of_int d then Return (slabFile, base)
               else search_slabs slabs address (s, uint64_of_int d)))"

text \<open>
  \<^verbatim>\<open>Seek\<close>. The result is the returned error (\<open>None\<close> for \<^verbatim>\<open>nil\<close>) and the reader. The
  parameter \<open>topic\<close> is not used by the body, which lists \<^verbatim>\<open>rd.topic\<close>. The offset handed
  to the file is \<^verbatim>\<open>int64(rd.base - address)\<close>.
\<close>

definition Reader_Seek ::
  "filesys \<Rightarrow> Reader \<Rightarrow> string \<Rightarrow> uint64 \<Rightarrow> (error option \<times> Reader) outcome" where
  "Reader_Seek fs rd topic address =
     (let rd1 = (case rd_fp rd of
                   None \<Rightarrow> rd
                 | Some fp \<Rightarrow> rd\<lparr>rd_fp := Some (snd (file_Close fp))\<rparr>)
      in bind_outcome (SlabFiles fs (rd_topic rd1)) (\<lambda>slabs.
         if length slabs \<le> 0 then Return (Some ErrInvalidTopic, rd1)
         else bind_outcome (search_slabs slabs address (hd slabs, rd_base rd1)) (\<lambda>(slabFile, base).
           let rd2 = rd1\<lparr>rd_base := base\<rparr>
           in case fst (OpenFile fs slabFile O_RDONLY) of
                Inl err \<Rightarrow> Return (Some err, rd2)
              | Inr fp \<Rightarrow>
                  let rd3 = rd2\<lparr>rd_fp := Some fp,
                                rd_rd := map_option (\<lambda>b. b\<lparr>r_live := False\<rparr>) (rd_rd rd2)\<rparr>
                  in if address - rd_base rd3 > of_nat (Size fs fp)
                     then Return (Some ErrOutOfBounds, rd3)
                     else if address - rd_base rd3 = of_nat (Size fs fp)
                     then Return (Some ErrEndOfLog,
                                  rd3\<lparr>rd_rd := Some \<lparr>r_buf = [], r_live = True\<rparr>\<rparr>)
                     else (case Seek_SET fp (sint (rd_base rd3 - address)) of
                             ((n, Some err), fp') \<Rightarrow> Return (Some err, rd3\<lparr>rd_fp := Some fp'\<rparr>)
                           | ((n, None), fp') \<Rightarrow>
                               Return (None, rd3\<lparr>rd_fp := Some fp',
                                                 rd_rd := Some \<lparr>r_buf = [], r_live = True\<rparr>\<rparr>)))))"

definition NewReader :: "filesys \<Rightarrow> string \<Rightarrow> uint64 \<Rightarrow> (Reader \<times> error option) outcome" where
  "NewReader fs topic address =
     bind_outcome
       (Reader_Seek fs \<lparr>rd_topic = topic, rd_base = 0, rd_fp = None, rd_rd = None\<rparr> topic address)
       (\<lambda>(err, rd). Return (rd, err))"

text \<open>
  \<^verbatim>\<open>rd.rd.Read(buf[cnt:])\<close> with \<open>n\<close> the length of the slice: a nil \<^verbatim>\<open>rd.rd\<close> panics. A
  buffered reader is only made for a file that \<^verbatim>\<open>rd.fp\<close> holds, so the case of no file
  does not arise; a reader that is not live reads from the closed file it wraps.
\<close>

definition rd_Read :: "filesys \<Rightarrow> Reader \<Rightarrow> nat \<Rightarrow> ((byte list \<times> error option) \<times> Reader) outcome" where
  "rd_Read fs rd n =
     (case rd_rd rd of
        None \<Rightarrow> Panic
      | Some b \<Rightarrow>
          (case rd_fp rd of
             None \<Rightarrow> Panic
           | Some fp \<Rightarrow>
               if r_live b
               then (case bufio_Read fs b fp n of
                       (res, b', fp') \<Rightarrow> Return (res, rd\<lparr>rd_fp := Some fp', rd_rd := Some b'\<rparr>))
               else (case bufio_Read fs b (fp\<lparr>fclosed := True\<rparr>) n of
                       (res, b', fp') \<Rightarrow> Return (res, rd\<lparr>rd_rd := Some b'\<rparr>))))"

text \<open>
  The first loop of \<^verbatim>\<open>Read\<close>, for the 4 bytes of the length; \<open>buf\<close> holds the bytes read
  so far. On \<^verbatim>\<open>io.EOF\<close> the reader adds the cursor of its file to \<^verbatim>\<open>rd.base\<close>, seeks
  to that address and, if the seek succeeds, goes round the loop again.

  The loop ends: a read without error delivers at least one byte, and after a seek that
  succeeds the cursor is inside the file, so that the next read is not at its end
  (\<open>at_eof\<close> below, used for the termination order only).
\<close>

definition at_eof :: "filesys \<Rightarrow> Reader \<Rightarrow> bool" where
  "at_eof fs rd =
     (case rd_rd rd of
        None \<Rightarrow> False
      | Some b \<Rightarrow>
          (case rd_fp rd of
             None \<Rightarrow> False
           | Some fp \<Rightarrow> r_buf b = [] \<and> r_live b \<and> \<not> fclosed fp
                        \<and> Size fs fp \<le> fpos fp))"

function read_length ::
  "filesys \<Rightarrow> Reader \<Rightarrow> byte list \<Rightarrow> ((error + byte list) \<times> Reader) outcome" where
  "read_length fs rd buf =
     (if 4 \<le> length buf then Return (Inr buf, rd)
      else (case rd_Read fs rd (4 - length buf) of
              Panic \<Rightarrow> Panic
            | Blocked \<Rightarrow> Blocked
            | Unmodelled \<Rightarrow> Unmodelled
            | Return ((bs, err), rd1) \<Rightarrow>
                if err = Some EOF then
                  (let offset = (case rd_fp rd1 of None \<Rightarrow> 0 | Some fp \<Rightarrow> fst (Seek_CUR0 fp));
                       rd2 = rd1\<lparr>rd_base := rd_base rd1 + of_nat offset\<rparr>
                   in case Reader_Seek fs rd2 (rd_topic rd2) (rd_base rd2) of
                        Panic \<Rightarrow> Panic
                      | Blocked \<Rightarrow> Blocked
                      | Unmodelled \<Rightarrow> Unmodelled
                      | Return (err2, rd3) \<Rightarrow>
                          if err2 \<noteq> None then Return (Inl (the err2), rd3)
                          else read_length fs rd3 buf)
                else if err \<noteq> None then Return (Inl (the err), rd1)
                else read_length fs rd1 (buf @ bs)))"
  by pat_completeness auto
termination
proof (relation "measure (\<lambda>(fs, rd, buf). 2 * (4 - length buf) + (if at_eof fs rd then 1 else 0))")
  show "wf (measure (\<lambda>(fs, rd, buf). 2 * (4 - length buf) + (if at_eof fs rd then 1 else 0)))"
    by simp
next
  fix fs :: filesys and rd rd1 rd2 rd3 :: Reader and buf bs :: "byte list"
    and x1 :: "(byte list \<times> error option) \<times> Reader" and x :: "byte list \<times> error option"
    and err err2 :: "error option" and offset :: nat and x1a :: "error option \<times> Reader"
  assume lt: "\<not> 4 \<le> length buf"
    and r: "rd_Read fs rd (4 - length buf) = Return x1" "(x, rd1) = x1" "(bs, err) = x"
           "err = Some EOF"
    and s: "Reader_Seek fs rd2 (rd_topic rd2) (rd_base rd2) = Return x1a" "(err2, rd3) = x1a"
           "\<not> err2 \<noteq> None"
  from lt have pos: "4 - length buf \<noteq> 0" by simp
  from r have "rd_Read fs rd (4 - length buf) = Return ((bs, Some EOF), rd1)" by auto
  with pos have before: "at_eof fs rd"
    by (auto simp: rd_Read_def bufio_Read_def file_Read_def at_eof_def Size_def Let_def
             split: option.splits if_splits prod.splits)
  have offset_in_file: "nat (sint (b - a)) < n"
    if "0 \<le> sint (b - a)" and "a - b < of_nat n" for a b :: uint64 and n :: nat
  proof -
    define d where "d = b - a"
    have ab: "a - b = - d" by (simp add: d_def)
    have lt63: "sint d < 2 ^ 63" using sint_lt [of d] by simp
    have "uint d = take_bit 64 (sint d)" using uint_sint [of d] by simp
    also have "\<dots> = sint d"
      using that(1) lt63 by (intro take_bit_int_eq_self) (auto simp: d_def)
    finally have eq: "uint d = sint d" .
    have u: "unat d = nat (uint d)" by (rule unat_eq_nat_uint)
    have s: "nat (sint d) = unat d" by (simp only: u eq)
    have "nat (sint d) < nat (2 ^ 63)"
      using lt63 that(1) by (intro nat_mono_iff [THEN iffD2]) (auto simp: d_def)
    then have small: "unat d < 2 ^ 63" by (simp only: u eq) simp
    from that(2) have "unat (- d) < unat (of_nat n :: uint64)"
      by (simp add: ab word_less_nat_alt)
    moreover have "unat (of_nat n :: uint64) \<le> n"
      by (metis le_unat_uoi linorder_le_cases)
    ultimately have nlt: "unat (- d) < n" by linarith
    show ?thesis
    proof (cases "d = 0")
      case True
      then show ?thesis using nlt s by (simp add: d_def)
    next
      case False
      then have "unat (- d) = 2 ^ 64 - unat d"
        using unat_sub_if_size [of 0 d] by (simp add: word_size unat_eq_zero)
      then show ?thesis using nlt small s by (simp add: d_def)
    qed
  qed
  from s have "Reader_Seek fs rd2 (rd_topic rd2) (rd_base rd2) = Return (None, rd3)" by auto
  moreover have bind_Return: "\<exists>v. m = Return v \<and> f v = Return y"
    if "bind_outcome m f = Return y" for m :: "'a outcome" and f :: "'a \<Rightarrow> 'b outcome" and y
    using that by (cases m) auto
  ultimately have "case rd_fp rd3 of
                     None \<Rightarrow> False
                   | Some fp \<Rightarrow> fpos fp = nat (sint (rd_base rd3 - rd_base rd2))
                        \<and> 0 \<le> sint (rd_base rd3 - rd_base rd2)
                        \<and> rd_base rd2 - rd_base rd3 < of_nat (length (contents fs (fpath fp)))"
    by (auto simp: Reader_Seek_def Size_def Let_def Seek_SET_def OpenFile_def
                   not_less word_le_less_eq
             split: option.splits if_splits prod.splits sum.splits
             dest!: bind_Return)
  then obtain fp where
    fp: "rd_fp rd3 = Some fp" "fpos fp = nat (sint (rd_base rd3 - rd_base rd2))"
    and "0 \<le> sint (rd_base rd3 - rd_base rd2)"
    and "rd_base rd2 - rd_base rd3 < of_nat (length (contents fs (fpath fp)))"
    by (auto split: option.splits)
  then have "nat (sint (rd_base rd3 - rd_base rd2)) < length (contents fs (fpath fp))"
    by (intro offset_in_file)
  with fp have after: "\<not> at_eof fs rd3"
    by (auto simp: at_eof_def Size_def split: option.splits)
  from before after
  show "((fs, rd3, buf), (fs, rd, buf))
        \<in> measure (\<lambda>(fs, rd, buf). 2 * (4 - length buf) + (if at_eof fs rd then 1 else 0))"
    by simp
next
  fix fs :: filesys and rd rd1 :: Reader and buf bs :: "byte list"
    and x1 :: "(byte list \<times> error option) \<times> Reader" and x :: "byte list \<times> error option"
    and err :: "error option"
  assume lt: "\<not> 4 \<le> length buf"
    and r: "rd_Read fs rd (4 - length buf) = Return x1" "(x, rd1) = x1" "(bs, err) = x"
           "err \<noteq> Some EOF" "\<not> err \<noteq> None"
  from lt have pos: "4 - length buf \<noteq> 0" by simp
  from r have "rd_Read fs rd (4 - length buf) = Return ((bs, None), rd1)" by auto
  with pos have "bs \<noteq> []"
    by (auto simp: rd_Read_def bufio_Read_def file_Read_def Let_def
             split: option.splits if_splits prod.splits)
  with lt show "((fs, rd1, buf @ bs), (fs, rd, buf))
        \<in> measure (\<lambda>(fs, rd, buf). 2 * (4 - length buf) + (if at_eof fs rd then 1 else 0))"
    by (cases bs) auto
qed

declare read_length.simps [simp del]

text \<open>
  The loops for the checksum (\<open>n = 4\<close>) and the payload (\<open>n = dlen\<close>): read until
  \<open>n\<close> bytes are there; any error, \<^verbatim>\<open>io.EOF\<close> included, is returned.
\<close>

function read_exact ::
  "filesys \<Rightarrow> Reader \<Rightarrow> nat \<Rightarrow> byte list \<Rightarrow> ((error + byte list) \<times> Reader) outcome" where
  "read_exact fs rd n buf =
     (if n \<le> length buf then Return (Inr buf, rd)
      else (case rd_Read fs rd (n - length buf) of
              Panic \<Rightarrow> Panic
            | Blocked \<Rightarrow> Blocked
            | Unmodelled \<Rightarrow> Unmodelled
            | Return ((bs, err), rd1) \<Rightarrow>
                if err \<noteq> None then Return (Inl (the err), rd1)
                else read_exact fs rd1 n (buf @ bs)))"
  by pat_completeness auto
termination
proof (relation "measure (\<lambda>(fs, rd, n, buf). n - length buf)")
  show "wf (measure (\<lambda>(fs, rd, n, buf). n - length buf))" by simp
next
  fix fs :: filesys and rd rd1 :: Reader and n :: nat and buf bs :: "byte list"
    and x1 :: "(byte list \<times> error option) \<times> Reader" and x :: "byte list \<times> error option"
    and err :: "error option"
  assume lt: "\<not> n \<le> length buf"
    and r: "rd_Read fs rd (n - length buf) = Return x1" "(x, rd1) = x1" "(bs, err) = x" "\<not> err \<noteq> None"
  from lt have pos: "n - length buf \<noteq> 0" by simp
  from r have "rd_Read fs rd (n - length buf) = Return ((bs, None), rd1)" by auto
  with pos have "bs \<noteq> []"
    by (auto simp: rd_Read_def bufio_Read_def file_Read_def Let_def
             split: option.splits if_splits prod.splits)
  with lt show "((fs, rd1, n, buf @ bs), (fs, rd, n, buf)) \<in> measure (\<lambda>(fs, rd, n, buf). n - length buf)"
    by (cases bs) auto
qed

declare read_exact.simps [simp del]

text \<open>
  \<^verbatim>\<open>Read\<close>: the returned slice (\<open>None\<close> for \<^verbatim>\<open>nil\<close>), the returned error and the
  reader. The checksum of the payload is computed whatever its length, so a record of
  length 0 panics.
\<close>

definition Reader_Read ::
  "filesys \<Rightarrow> Reader \<Rightarrow> ((byte list option \<times> error option) \<times> Reader) outcome" where
  "Reader_Read fs rd =
     bind_outcome (read_length fs rd []) (\<lambda>(r1, rd1).
       case r1 of
         Inl err \<Rightarrow> Return ((None, Some err), rd1)
       | Inr buf \<Rightarrow>
           let dlen = Uint32 buf
           in bind_outcome (read_exact fs rd1 4 []) (\<lambda>(r2, rd2).
                case r2 of
                  Inl err \<Rightarrow> Return ((None, Some err), rd2)
                | Inr buf2 \<Rightarrow>
                    let xx32 = Uint32 buf2
                    in bind_outcome (read_exact fs rd2 (unat dlen) []) (\<lambda>(r3, rd3).
                         case r3 of
                           Inl err \<Rightarrow> Return ((None, Some err), rd3)
                         | Inr payload \<Rightarrow>
                             bind_outcome (Checksum32 payload) (\<lambda>sum.
                               if xx32 \<noteq> sum
                               then Return ((Some payload, Some ErrBadChecksum), rd3)
                               else Return ((Some payload, None), rd3)))))"

text \<open>\<^verbatim>\<open>(*Reader).Close\<close>; closing a nil file is an error of \<^verbatim>\<open>os\<close>, not a panic.\<close>

definition Reader_Close :: "Reader \<Rightarrow> error option \<times> Reader" where
  "Reader_Close rd =
     (case rd_fp rd of
        None \<Rightarrow> (Some EINVAL, rd)
      | Some fp \<Rightarrow> (fst (file_Close fp), rd\<lparr>rd_fp := Some (snd (file_Close fp))\<rparr>))"

subsection \<open>Writer\<close>

text \<open>The embedded mutex is the field \<open>wt_locked\<close>.\<close>

record Writer =
  wt_topic :: string
  wt_address :: uint64
  wt_base :: uint64
  wt_fp :: "os_file option"
  wt_wt :: "bufio_Writer option"
  wt_slabSizeHint :: uint64
  wt_locked :: bool

text \<open>
  \<^verbatim>\<open>wt.wt.Write(p)\<close> and \<^verbatim>\<open>wt.wt.Flush()\<close>: a nil \<^verbatim>\<open>wt.wt\<close> panics. The buffered writer
  wraps \<^verbatim>\<open>wt.fp\<close>: the two fields are always set together.
\<close>

definition wt_Write ::
  "filesys \<Rightarrow> Writer \<Rightarrow> byte list \<Rightarrow> ((nat \<times> error option) \<times> Writer \<times> filesys) outcome" where
  "wt_Write fs wt p =
     (case wt_wt wt of
        None \<Rightarrow> Panic
      | Some b \<Rightarrow>
          (case wt_fp wt of
             None \<Rightarrow> Panic
           | Some fp \<Rightarrow>
               (case bufio_Write fs b fp p of
                  (res, b', fp', fs') \<Rightarrow> Return (res, wt\<lparr>wt_fp := Some fp', wt_wt := Some b'\<rparr>, fs'))))"

definition Writer_Flush :: "filesys \<Rightarrow> Writer \<Rightarrow> (error option \<times> Writer \<times> filesys) outcome" where
  "Writer_Flush fs wt =
     (case wt_wt wt of
        None \<Rightarrow> Panic
      | Some b \<Rightarrow>
          (case wt_fp wt of
             None \<Rightarrow> Panic
           | Some fp \<Rightarrow>
               (case bufio_Flush fs b fp of
                  (err, b', fp', fs') \<Rightarrow> Return (err, wt\<lparr>wt_fp := Some fp', wt_wt := Some b'\<rparr>, fs'))))"

text \<open>\<^verbatim>\<open>load\<close>: open the last slab file of the topic for appending and take the address
  from its name and size. Every failure is a panic.\<close>

definition Writer_load :: "filesys \<Rightarrow> Writer \<Rightarrow> (Writer \<times> filesys) outcome" where
  "Writer_load fs wt =
     bind_outcome (Glob_slab fs (wt_topic wt)) (\<lambda>r.
       case r of
         Inl err \<Rightarrow> Panic
       | Inr names \<Rightarrow>
           if names = [] then Panic
           else (let latest = last names
                 in case OpenFile fs latest O_APPEND_RDWR of
                      (Inl err, fs1) \<Rightarrow> Panic
                    | (Inr fp, fs1) \<Rightarrow>
                        let name = basename (fpath fp)
                        in if length name < 5 then Panic
                           else (let i = Atoi (take (length name - 5) name);
                                     wt1 = wt\<lparr>wt_base := uint64_of_int i\<rparr>;
                                     wt2 = wt1\<lparr>wt_address := wt_base wt1 + of_nat (Size fs1 fp)\<rparr>;
                                     wt3 = wt2\<lparr>wt_fp := Some fp,
                                               wt_wt := Some \<lparr>w_buf = [], w_err = None\<rparr>\<rparr>
                                 in bind_outcome (Writer_Flush fs1 wt3)
                                      (\<lambda>(err, wt4, fs2). Return (wt4, fs2)))))"

text \<open>\<^verbatim>\<open>create\<close>: make the topic directory and a slab file named after the current
  address. \<^verbatim>\<open>wt.base\<close> is set before the file is opened.\<close>

definition Writer_create :: "filesys \<Rightarrow> Writer \<Rightarrow> (error option \<times> Writer \<times> filesys) outcome" where
  "Writer_create fs wt =
     (case MkdirAll fs (wt_topic wt) of
        (Some err, fs1) \<Rightarrow> Return (Some err, wt, fs1)
      | (None, fs1) \<Rightarrow>
          let fname = slab_name (wt_topic wt) (wt_address wt);
              wt1 = wt\<lparr>wt_base := wt_address wt\<rparr>
          in case OpenFile fs1 fname O_CREATE_RDWR of
               (Inl err, fs2) \<Rightarrow> Return (Some err, wt1, fs2)
             | (Inr fp, fs2) \<Rightarrow>
                 let wt2 = wt1\<lparr>wt_fp := Some fp, wt_wt := Some \<lparr>w_buf = [], w_err = None\<rparr>\<rparr>
                 in bind_outcome (Writer_Flush fs2 wt2)
                      (\<lambda>(err, wt3, fs3). Return (None, wt3, fs3)))"

text \<open>\<^verbatim>\<open>NewWriter\<close>; the error of \<^verbatim>\<open>create\<close> is dropped, and the error returned is always
  \<^verbatim>\<open>nil\<close>.\<close>

definition NewWriter ::
  "filesys \<Rightarrow> string \<Rightarrow> uint64 \<Rightarrow> ((Writer \<times> error option) \<times> filesys) outcome" where
  "NewWriter fs topic slabSizeHint =
     (let wt = \<lparr>wt_topic = topic, wt_address = 0, wt_base = 0, wt_fp = None, wt_wt = None,
                wt_slabSizeHint = slabSizeHint, wt_locked = False\<rparr>
      in bind_outcome (SlabFiles fs (wt_topic wt)) (\<lambda>slabs.
           if length slabs = 0
           then bind_outcome (Writer_create fs wt) (\<lambda>(err, wt', fs'). Return ((wt', None), fs'))
           else bind_outcome (Writer_load fs wt) (\<lambda>(wt', fs'). Return ((wt', None), fs'))))"

definition Writer_Close :: "filesys \<Rightarrow> Writer \<Rightarrow> (error option \<times> Writer \<times> filesys) outcome" where
  "Writer_Close fs wt =
     bind_outcome (Writer_Flush fs wt) (\<lambda>(err, wt1, fs1).
       case wt_fp wt1 of
         None \<Rightarrow> Return (Some EINVAL, wt1, fs1)
       | Some fp \<Rightarrow>
           Return (fst (file_Close fp), wt1\<lparr>wt_fp := Some (snd (file_Close fp))\<rparr>, fs1))"

text \<open>
  \<^verbatim>\<open>Write\<close>, in three parts. The first is what it does between \<^verbatim>\<open>Lock\<close> and the test
  for the rollover: the three writes, each of which returns its error at once, and the
  address, which advances by \<^verbatim>\<open>8 + tx\<close>.
\<close>

definition Write_record ::
  "filesys \<Rightarrow> Writer \<Rightarrow> byte list \<Rightarrow> uint32 \<Rightarrow> (error option \<times> Writer \<times> filesys) outcome" where
  "Write_record fs wt d xx32 =
     bind_outcome (wt_Write fs wt (PutUint32 (of_nat (length d)))) (\<lambda>((tx, err), wt1, fs1).
     if err \<noteq> None then Return (err, wt1, fs1)
     else
       bind_outcome (wt_Write fs1 wt1 (PutUint32 xx32)) (\<lambda>((tx, err), wt2, fs2).
       if err \<noteq> None then Return (err, wt2, fs2)
       else
         bind_outcome (wt_Write fs2 wt2 d) (\<lambda>((tx, err), wt3, fs3).
         if err \<noteq> None then Return (err, wt3, fs3)
         else Return (None, wt3\<lparr>wt_address := wt_address wt3 + of_nat (8 + tx)\<rparr>, fs3))))"

text \<open>
  The second part is the first two statements of the rollover, \<^verbatim>\<open>wt.Flush()\<close> and
  \<^verbatim>\<open>wt.fp.Close()\<close>; their errors are dropped.
\<close>

definition Write_flush_close :: "filesys \<Rightarrow> Writer \<Rightarrow> (Writer \<times> filesys) outcome" where
  "Write_flush_close fs wt =
     bind_outcome (Writer_Flush fs wt) (\<lambda>(e1, wt5, fs5).
       Return (case wt_fp wt5 of
                 None \<Rightarrow> wt5
               | Some fp \<Rightarrow> wt5\<lparr>wt_fp := Some (snd (file_Close fp))\<rparr>,
               fs5))"

text \<open>
  \<^verbatim>\<open>Write\<close>. The checksum is computed before \<^verbatim>\<open>Lock\<close>. \<^verbatim>\<open>Lock\<close> on the locked mutex
  blocks; the three early returns leave it locked. The slab rolls over when
  \<^verbatim>\<open>wt.address - wt.base\<close> exceeds the hint: flush, close and \<^verbatim>\<open>create\<close>, whose error
  is dropped as well.
\<close>

definition Writer_Write ::
  "filesys \<Rightarrow> Writer \<Rightarrow> byte list \<Rightarrow> (error option \<times> Writer \<times> filesys) outcome" where
  "Writer_Write fs wt d =
     bind_outcome (Checksum32 d) (\<lambda>xx32.
       if wt_locked wt then Blocked
       else
         bind_outcome (Write_record fs (wt\<lparr>wt_locked := True\<rparr>) d xx32) (\<lambda>(err, wt4, fs3).
         if err \<noteq> None then Return (err, wt4, fs3)
         else if wt_address wt4 - wt_base wt4 > wt_slabSizeHint wt4
         then
           bind_outcome (Write_flush_close fs3 wt4) (\<lambda>(wt6, fs5).
           bind_outcome (Writer_create fs5 wt6) (\<lambda>(e2, wt7, fs7).
             Return (None, wt7\<lparr>wt_locked := False\<rparr>, fs7)))
         else Return (None, wt4\<lparr>wt_locked := False\<rparr>, fs3)))"

subsection \<open>The state of a writer and its log\<close>

text \<open>
  The record that \<^verbatim>\<open>Write\<close> puts together for a payload; the bytes a writer holds in its
  buffer; the name of its current slab file.
\<close>

definition frame :: "byte list \<Rightarrow> byte list" where
  "frame d = PutUint32 (of_nat (length d)) @ PutUint32 (xxh32 d) @ d"

definition pending :: "Writer \<Rightarrow> byte list" where
  "pending wt = (case wt_wt wt of None \<Rightarrow> [] | Some b \<Rightarrow> w_buf b)"

definition cur_slab :: "Writer \<Rightarrow> string" where
  "cur_slab wt = slab_name (wt_topic wt) (wt_base wt)"

text \<open>
  A file that is open with its writes going to the end of it; a file system that
  differs from another one by bytes appended to one file; a writer whose file is open
  at the end of the slab named after \<^verbatim>\<open>wt.base\<close>, with no error pending in its buffered
  writer.
\<close>

definition at_end :: "filesys \<Rightarrow> os_file \<Rightarrow> bool" where
  "at_end fs fp =
     (\<not> fclosed fp \<and> map_of (files fs) (fpath fp) \<noteq> None
      \<and> (fappend fp \<or> fpos fp = Size fs fp))"

definition appended :: "filesys \<Rightarrow> string \<Rightarrow> byte list \<Rightarrow> filesys \<Rightarrow> bool" where
  "appended fs path p fs' =
     (contents fs' path = contents fs path @ p
      \<and> map fst (files fs') = map fst (files fs)
      \<and> dirs fs' = dirs fs \<and> denied fs' = denied fs
      \<and> (\<forall>q. q \<noteq> path \<longrightarrow> map_of (files fs') q = map_of (files fs) q))"

definition writer_open :: "filesys \<Rightarrow> Writer \<Rightarrow> bool" where
  "writer_open fs wt =
     (case wt_fp wt of
        None \<Rightarrow> False
      | Some fp \<Rightarrow>
          (case wt_wt wt of
             None \<Rightarrow> False
           | Some b \<Rightarrow> at_end fs fp \<and> fpath fp = cur_slab wt \<and> w_err b = None))"

text \<open>
  A writer that is open on its log: the mutex is free; the address is the base plus the
  size of the slab plus the buffered bytes; the topic is plain, its directory exists,
  nothing in it is closed to the process and no sub-directory of it has the name of a
  slab; and no slab file of the topic has a name after the current one.
\<close>

definition log_ok :: "filesys \<Rightarrow> Writer \<Rightarrow> bool" where
  "log_ok fs wt =
     (\<not> wt_locked wt \<and> writer_open fs wt
      \<and> unat (wt_address wt)
          = unat (wt_base wt) + length (contents fs (cur_slab wt)) + length (pending wt)
      \<and> plain_topic (wt_topic wt) \<and> wt_topic wt \<in> set (dirs fs)
      \<and> list_all (\<lambda>p. p \<noteq> wt_topic wt \<and> \<not> in_dir (wt_topic wt) p) (denied fs)
      \<and> list_all (\<lambda>p. \<not> (in_dir (wt_topic wt) p \<and> has_suffix ''.slab'' p)) (dirs fs)
      \<and> list_all (\<lambda>p. \<not> (in_dir (wt_topic wt) p \<and> has_suffix ''.slab'' p) \<or> p \<le> cur_slab wt)
                   (map fst (files fs)))"

subsection \<open>Runs on a fresh topic\<close>

text \<open>
  The empty file system, the conversion \<^verbatim>\<open>[]byte(s)\<close>, and three runs of a writer on a
  topic that does not exist yet: one record \<^verbatim>\<open>"a"\<close> written and flushed; then a second
  record \<^verbatim>\<open>"b"\<close> written and flushed; and the record of the package's test, with its
  topic and size hint.
\<close>

definition fs_empty :: filesys where
  "fs_empty = \<lparr>files = [], dirs = [], denied = []\<rparr>"

definition bytes_of :: "string \<Rightarrow> byte list" where
  "bytes_of s = map (\<lambda>c. of_nat (of_char c)) s"

definition written_a :: "(Writer \<times> filesys) outcome" where
  "written_a =
     bind_outcome (NewWriter fs_empty ''t'' 1000) (\<lambda>((wt, err), fs).
     bind_outcome (Writer_Write fs wt [97]) (\<lambda>(err, wt, fs).
     bind_outcome (Writer_Flush fs wt) (\<lambda>(err, wt, fs). Return (wt, fs))))"

definition written_ab :: "(Writer \<times> filesys) outcome" where
  "written_ab =
     bind_outcome written_a (\<lambda>(wt, fs).
     bind_outcome (Writer_Write fs wt [98]) (\<lambda>(err, wt, fs).
     bind_outcome (Writer_Flush fs wt) (\<lambda>(err, wt, fs). Return (wt, fs))))"

definition written_test :: "(Writer \<times> filesys) outcome" where
  "written_test =
     bind_outcome (NewWriter fs_empty ''/tmp/mylog'' 10485760) (\<lambda>((wt, err), fs).
     bind_outcome (Writer_Write fs wt (bytes_of ''This is only a test.'')) (\<lambda>(err, wt, fs).
     bind_outcome (Writer_Flush fs wt) (\<lambda>(err, wt, fs). Return (wt, fs))))"

section \<open>Properties\<close>

subsection \<open>Evaluating the runs\<close>

lemma zpad_0: "zpad 20 0 = ''00000000000000000000''"
  by code_simp

lemma slab_name_0: "slab_name topic 0 = topic @ ''/00000000000000000000.slab''"
  by (simp add: slab_name_def zpad_0)

lemma Atoi_0: "Atoi ''00000000000000000000'' = 0"
  by (simp add: Atoi_def is_digit_def)

lemmas xxhash_defs = xxh32_def xx_avalanche_def xx_round_def Uint32_def rotl32_def
  PRIME32_1_def PRIME32_2_def PRIME32_3_def PRIME32_4_def PRIME32_5_def Let_def

lemma xxh32_a: "xxh32 [97] = 1426945110"
  by (simp add: xxhash_defs)

lemma xxh32_b: "xxh32 [98] = 2718739903"
  by (simp add: xxhash_defs)

lemma bytes_of_test:
  "bytes_of ''This is only a test.'' =
     [84, 104, 105, 115, 32, 105, 115, 32, 111, 110, 108, 121, 32, 97, 32, 116, 101, 115, 116, 46]"
  by (simp add: bytes_of_def)

lemma xxh32_test_bytes:
  "xxh32 [84, 104, 105, 115, 32, 105, 115, 32, 111, 110, 108, 121, 32, 97, 32, 116, 101,
          115, 116, 46] = 0x8e217fe1"
  by (simp add: xxhash_defs)

lemma Checksum32_test: "Checksum32 (bytes_of ''This is only a test.'') = Return 0x8e217fe1"
  by (simp add: Checksum32_def bytes_of_test xxh32_test_bytes)

lemma plain_t: "plain_topic ''t''"
  by (simp add: plain_topic_def clean_path_def metachar_def)

lemma plain_tmp_mylog: "plain_topic ''/tmp/mylog''"
  by (simp add: plain_topic_def clean_path_def metachar_def)

lemmas glob_defs = Glob_slab_def unclosed_class_def plain_t plain_tmp_mylog

lemmas writer_defs = NewWriter_def SlabFiles_def glob_defs Writer_create_def MkdirAll_def
  OpenFile_def dirname_def Writer_Flush_def bufio_Flush_def Writer_Write_def Write_record_def
  Write_flush_close_def Checksum32_def wt_Write_def
  bufio_Write_def bufio_Write_loop.simps defaultBufSize_def PutUint32_def Let_def file_Write_def
  contents_def in_dir_def has_suffix_def Writer_Close_def file_Close_def

lemmas reader_defs = NewReader_def Reader_Seek_def SlabFiles_def glob_defs in_dir_def
  has_suffix_def OpenFile_def dirname_def Size_def contents_def Seek_SET_def Let_def uint64_of_int_def
  file_Close_def Reader_Read_def read_length.simps read_exact.simps rd_Read_def bufio_Read_def
  file_Read_def defaultBufSize_def Seek_CUR0_def Uint32_def

lemma written_a_eq:
  "written_a = Return
     (\<lparr>wt_topic = ''t'', wt_address = 9, wt_base = 0,
        wt_fp = Some \<lparr>fpath = ''t/00000000000000000000.slab'', fpos = 9, fappend = False,
                      fclosed = False\<rparr>,
        wt_wt = Some \<lparr>w_buf = [], w_err = None\<rparr>, wt_slabSizeHint = 1000, wt_locked = False\<rparr>,
      \<lparr>files = [(''t/00000000000000000000.slab'', [1, 0, 0, 0, 86, 116, 13, 85, 97])],
        dirs = [''t''], denied = []\<rparr>)"
  by (simp add: written_a_def fs_empty_def writer_defs slab_name_0 xxh32_a)

lemma written_ab_eq:
  "written_ab = Return
     (\<lparr>wt_topic = ''t'', wt_address = 18, wt_base = 0,
        wt_fp = Some \<lparr>fpath = ''t/00000000000000000000.slab'', fpos = 18, fappend = False,
                      fclosed = False\<rparr>,
        wt_wt = Some \<lparr>w_buf = [], w_err = None\<rparr>, wt_slabSizeHint = 1000, wt_locked = False\<rparr>,
      \<lparr>files = [(''t/00000000000000000000.slab'',
                  [1, 0, 0, 0, 86, 116, 13, 85, 97, 1, 0, 0, 0, 191, 173, 12, 162, 98])],
        dirs = [''t''], denied = []\<rparr>)"
  by (simp add: written_ab_def written_a_eq writer_defs xxh32_b)

lemma written_test_eq:
  "written_test = Return
     (\<lparr>wt_topic = ''/tmp/mylog'', wt_address = 28, wt_base = 0,
        wt_fp = Some \<lparr>fpath = ''/tmp/mylog/00000000000000000000.slab'', fpos = 28,
                      fappend = False, fclosed = False\<rparr>,
        wt_wt = Some \<lparr>w_buf = [], w_err = None\<rparr>, wt_slabSizeHint = 10485760,
        wt_locked = False\<rparr>,
      \<lparr>files = [(''/tmp/mylog/00000000000000000000.slab'',
                  [0x14, 0, 0, 0, 0xe1, 0x7f, 0x21, 0x8e] @ bytes_of ''This is only a test.'')],
        dirs = [''/tmp/mylog''], denied = []\<rparr>)"
  by (simp add: written_test_def fs_empty_def writer_defs slab_name_0 xxh32_test_bytes
        bytes_of_test)

subsection \<open>Segment names\<close>

text \<open>
  The name of a segment has 20 digits; \<^verbatim>\<open>Atoi\<close> reads the base address back from it as
  long as the address fits the 64-bit \<^verbatim>\<open>int\<close>; and the order of the names as strings is
  the order of the addresses.
\<close>

lemma length_zpad [simp]: "length (zpad k n) = k"
  by (induction k arbitrary: n) auto

lemma int_of_char: "(of_char c :: int) = int (of_char c :: nat)"
  by (simp add: of_nat_of_char)

lemma is_digit_char_of: "d < 10 \<Longrightarrow> is_digit (char_of (48 + d :: nat))"
  by (simp add: is_digit_def int_of_char)

lemma digit_val_char_of: "d < 10 \<Longrightarrow> (of_char (char_of (48 + d :: nat)) :: int) - 48 = int d"
  by (simp add: int_of_char)

lemma zpad_is_digit: "c \<in> set (zpad k n) \<Longrightarrow> is_digit c"
  by (induction k arbitrary: n) (auto simp: is_digit_char_of)

lemma is_digit_not_sep:
  "is_digit c \<Longrightarrow> c \<noteq> CHR ''/'' \<and> c \<noteq> CHR ''+'' \<and> c \<noteq> CHR ''-''"
  by (auto simp: is_digit_def)

lemma digits_value_snoc:
  "digits_value (cs @ [c]) acc =
     (case digits_value cs acc of
        None \<Rightarrow> None
      | Some v \<Rightarrow> if is_digit c then Some (10 * v + (of_char c - 48)) else None)"
  by (induction cs arbitrary: acc) auto

lemma digits_value_zpad: "digits_value (zpad k n) 0 = Some (int (n mod 10 ^ k))"
proof (induction k arbitrary: n)
  case 0
  then show ?case by simp
next
  case (Suc k)
  have "10 * ((n div 10) mod 10 ^ k) + n mod 10 = n mod 10 ^ Suc k"
    by (simp add: mod_mult2_eq)
  then have "10 * int ((n div 10) mod 10 ^ k) + int (n mod 10) = int (n mod 10 ^ Suc k)"
    by (metis of_nat_add of_nat_mult of_nat_numeral)
  then show ?case
    by (simp add: digits_value_snoc Suc.IH is_digit_char_of digit_val_char_of del: power_Suc)
qed

lemma Atoi_zpad:
  assumes "n < 2 ^ 63"
  shows "Atoi (zpad 20 n) = int n"
proof -
  have ne: "zpad 20 n \<noteq> []" by (metis length_zpad list.size(3) zero_neq_numeral)
  then have "hd (zpad 20 n) \<in> set (zpad 20 n)" by simp
  then have "is_digit (hd (zpad 20 n))" by (rule zpad_is_digit)
  then have hd: "hd (zpad 20 n) \<noteq> CHR ''+''" "hd (zpad 20 n) \<noteq> CHR ''-''"
    using is_digit_not_sep by blast+
  have "n < 10 ^ 20" using assms by simp
  then have md: "n mod 10 ^ 20 = n" by simp
  have small: "\<not> 9223372036854775808 \<le> int n" using assms by simp
  show ?thesis
    using ne hd small by (simp add: Atoi_def digits_value_zpad md)
qed

lemma snoc_less_snoc:
  fixes xs ys :: "'a :: linorder list"
  assumes "length xs = length ys"
  shows "xs @ [a] < ys @ [b] \<longleftrightarrow> xs < ys \<or> xs = ys \<and> a < b"
  using assms by (induction xs ys rule: list_induct2) auto

lemma zpad_mono: "m < n \<Longrightarrow> n < 10 ^ k \<Longrightarrow> zpad k m < zpad k n"
proof (induction k arbitrary: m n)
  case 0
  then show ?case by simp
next
  case (Suc k)
  have le: "m div 10 \<le> n div 10" using Suc.prems(1) by (simp add: div_le_mono)
  have bound: "n div 10 < 10 ^ k" using Suc.prems(2) by (simp add: less_mult_imp_div_less)
  show ?case
  proof (cases "m div 10 < n div 10")
    case True
    then have "zpad k (m div 10) < zpad k (n div 10)" using bound by (rule Suc.IH)
    then show ?thesis by (simp add: snoc_less_snoc)
  next
    case False
    with le have eq: "m div 10 = n div 10" by simp
    with Suc.prems(1) have "m mod 10 < n mod 10"
      by (metis div_mult_mod_eq nat_add_left_cancel_less)
    then have "char_of (48 + m mod 10) < char_of (48 + n mod 10)"
      by (simp add: less_char_def)
    with eq show ?thesis by (simp add: snoc_less_snoc)
  qed
qed

lemma unat_lt_10_20: "unat (a :: uint64) < 10 ^ 20"
proof -
  have "unat a < 2 ^ 64" using unsigned_less [of a] by simp
  then show ?thesis by simp
qed

lemma slab_name_mono: "a < b \<Longrightarrow> slab_name topic a < slab_name topic b"
proof -
  assume "a < b"
  then have "unat a < unat b" by (simp add: word_less_nat_alt)
  then have "zpad 20 (unat a) < zpad 20 (unat b)"
    using unat_lt_10_20 by (rule zpad_mono)
  then have "(zpad 20 (unat a), zpad 20 (unat b)) \<in> lexord {(u, v). u < v}"
    by (simp add: list_less_def)
  then have "(zpad 20 (unat a) @ ''.slab'', zpad 20 (unat b) @ ''.slab'') \<in> lexord {(u, v). u < v}"
    by (rule lexord_sufI) simp
  then have "((topic @ ''/'') @ zpad 20 (unat a) @ ''.slab'',
              (topic @ ''/'') @ zpad 20 (unat b) @ ''.slab'') \<in> lexord {(u, v). u < v}"
    by (rule lexord_append_leftI)
  then show ?thesis by (simp add: slab_name_def list_less_def)
qed

lemma slab_name_inj: "slab_name topic a = slab_name topic b \<Longrightarrow> a = b"
  by (metis slab_name_mono less_irrefl linorder_neqE)

lemma no_sep_name: "CHR ''/'' \<notin> set (zpad k n @ ''.slab'')"
  using zpad_is_digit is_digit_not_sep by auto

lemma in_dir_slab_name: "in_dir topic (slab_name topic a)"
  using no_sep_name by (simp add: in_dir_def slab_name_def)

lemma has_suffix_slab_name: "has_suffix ''.slab'' (slab_name topic a)"
  by (simp add: has_suffix_def slab_name_def)

lemma dirname_slab_name: "dirname (slab_name topic a) = topic"
proof -
  have "dropWhile (\<lambda>c. c \<noteq> CHR ''/'') (rev (zpad 20 (unat a) @ ''.slab'') @ CHR ''/'' # rev topic)
        = CHR ''/'' # rev topic"
    using no_sep_name [of 20 "unat a"] by (subst dropWhile_append2) auto
  then show ?thesis by (simp add: dirname_def slab_name_def)
qed

lemma basename_slab_name: "basename (slab_name topic a) = zpad 20 (unat a) @ ''.slab''"
proof -
  have "takeWhile (\<lambda>c. c \<noteq> CHR ''/'') (rev (zpad 20 (unat a) @ ''.slab'') @ CHR ''/'' # rev topic)
        = rev (zpad 20 (unat a) @ ''.slab'')"
    using no_sep_name [of 20 "unat a"] by (subst takeWhile_append2) auto
  then show ?thesis by (simp add: basename_def slab_name_def)
qed

lemma last_sort_greatest:
  fixes xs :: "'a :: linorder list"
  assumes "x \<in> set xs" and "\<forall>y \<in> set xs. y \<le> x"
  shows "last (sort xs) = x"
proof -
  have "set (sort xs) = set xs" by simp
  then have ne: "sort xs \<noteq> []" using assms(1) by (metis empty_iff empty_set)
  have "last (sort xs) \<in> set (sort xs)" using ne by (rule last_in_set)
  then have le: "last (sort xs) \<le> x" using assms(2) by simp
  have "x \<in> set (sort xs)" using assms(1) by simp
  then obtain i where i: "i < length (sort xs)" "sort xs ! i = x"
    by (metis in_set_conv_nth)
  have "sort xs ! i \<le> sort xs ! (length (sort xs) - 1)"
    using i by (intro sorted_nth_mono) auto
  then have "x \<le> last (sort xs)" using i ne by (simp add: last_conv_nth)
  with le show ?thesis by simp
qed

subsection \<open>Writing through the buffer\<close>

text \<open>
  On a file that is open at its end, whatever goes through the buffered writer ends up,
  in order, in the file and then the buffer, and nothing else in the file system
  changes.
\<close>

lemma appended_refl: "appended fs path [] fs"
  by (simp add: appended_def)

lemma appended_trans:
  "appended fs path p fs1 \<Longrightarrow> appended fs1 path q fs2 \<Longrightarrow> appended fs path (p @ q) fs2"
  by (simp add: appended_def)

lemma appended_present:
  "appended fs path p fs' \<Longrightarrow> map_of (files fs) q \<noteq> None \<Longrightarrow> map_of (files fs') q \<noteq> None"
  by (metis appended_def map_of_eq_None_iff set_map)

lemma file_Write_at_end:
  assumes "at_end fs fp"
  shows "\<exists>fp' fs'. file_Write fs fp p = ((length p, None), fp', fs')
           \<and> at_end fs' fp' \<and> fpath fp' = fpath fp \<and> fappend fp' = fappend fp
           \<and> appended fs (fpath fp) p fs'"
proof -
  have "fpath fp \<in> fst ` set (files fs)"
    using assms by (simp add: at_end_def map_of_eq_None_iff)
  then show ?thesis
    using assms
    by (auto simp: file_Write_def Let_def contents_def update_conv' update_keys at_end_def
                   appended_def Size_def
             split: option.splits)
qed

lemma bufio_Flush_at_end:
  assumes "at_end fs fp" and "w_err b = None"
  shows "\<exists>fp' fs'. bufio_Flush fs b fp = (None, b\<lparr>w_buf := []\<rparr>, fp', fs')
           \<and> at_end fs' fp' \<and> fpath fp' = fpath fp \<and> fappend fp' = fappend fp
           \<and> appended fs (fpath fp) (w_buf b) fs'"
proof (cases "w_buf b = []")
  case True
  then have "b\<lparr>w_buf := []\<rparr> = b" by simp
  with True assms show ?thesis by (simp add: bufio_Flush_def appended_refl)
next
  case False
  from file_Write_at_end [OF assms(1), of "w_buf b"] obtain fp' fs' where
    w: "file_Write fs fp (w_buf b) = ((length (w_buf b), None), fp', fs')"
    and rest: "at_end fs' fp'" "fpath fp' = fpath fp" "fappend fp' = fappend fp"
      "appended fs (fpath fp) (w_buf b) fs'"
    by blast
  from False assms(2) w have "bufio_Flush fs b fp = (None, b\<lparr>w_buf := []\<rparr>, fp', fs')"
    by (simp add: bufio_Flush_def)
  with rest show ?thesis by simp
qed

lemma bufio_Write_loop_at_end:
  assumes "at_end fs fp" and "w_err b = None"
  shows "\<exists>fs' b' fp' p' nn' flushed.
           bufio_Write_loop fs b fp p nn = (fs', b', fp', p', nn')
           \<and> nn' + length p' = nn + length p
           \<and> w_err b' = None \<and> at_end fs' fp' \<and> fpath fp' = fpath fp
           \<and> fappend fp' = fappend fp
           \<and> appended fs (fpath fp) flushed fs'
           \<and> flushed @ w_buf b' @ p' = w_buf b @ p"
  using assms
proof (induction fs b fp p nn rule: bufio_Write_loop.induct)
  case (1 fs b fp p nn)
  show ?case
  proof (cases "defaultBufSize - length (w_buf b) < length p \<and> w_err b = None")
    case False
    with "1.prems" have "bufio_Write_loop fs b fp p nn = (fs, b, fp, p, nn)"
      by (simp add: bufio_Write_loop.simps)
    with "1.prems" show ?thesis
      using appended_refl [of fs "fpath fp"] by auto
  next
    case loop: True
    show ?thesis
    proof (cases "w_buf b = []")
      case True
      from file_Write_at_end [OF "1.prems"(1), of p] obtain fp1 fs1 where
        w: "file_Write fs fp p = ((length p, None), fp1, fs1)"
        and r: "at_end fs1 fp1" "fpath fp1 = fpath fp" "fappend fp1 = fappend fp"
          "appended fs (fpath fp) p fs1"
        by blast
      have step: "bufio_Write_loop fs b fp p nn
                  = bufio_Write_loop fs1 (b\<lparr>w_err := None\<rparr>) fp1 (drop (length p) p) (nn + length p)"
        using loop True w by (subst bufio_Write_loop.simps) simp
      have "bufio_Write_loop fs1 (b\<lparr>w_err := None\<rparr>) fp1 [] (nn + length p)
            = (fs1, b\<lparr>w_err := None\<rparr>, fp1, [], nn + length p)"
        by (simp add: bufio_Write_loop.simps)
      with step have "bufio_Write_loop fs b fp p nn = (fs1, b\<lparr>w_err := None\<rparr>, fp1, [], nn + length p)"
        by simp
      with r True "1.prems" show ?thesis by auto
    next
      case False
      define n where "n = defaultBufSize - length (w_buf b)"
      define b1 where "b1 = b\<lparr>w_buf := w_buf b @ take n p\<rparr>"
      have b1: "w_err b1 = None" using "1.prems" by (simp add: b1_def)
      from bufio_Flush_at_end [OF "1.prems"(1) b1] obtain fp1 fs1 where
        f: "bufio_Flush fs b1 fp = (None, b1\<lparr>w_buf := []\<rparr>, fp1, fs1)"
        and r: "at_end fs1 fp1" "fpath fp1 = fpath fp" "fappend fp1 = fappend fp"
          "appended fs (fpath fp) (w_buf b1) fs1"
        by blast
      have step: "bufio_Write_loop fs b fp p nn
                  = bufio_Write_loop fs1 (b1\<lparr>w_buf := []\<rparr>) fp1 (drop n p) (nn + n)"
        using loop False f by (subst bufio_Write_loop.simps) (simp add: n_def b1_def Let_def)
      have werr: "w_err (b1\<lparr>w_buf := []\<rparr>) = None" using b1 by simp
      have e2: "(None, b1\<lparr>w_buf := []\<rparr>, fp1, fs1)
                = bufio_Flush fs (b\<lparr>w_buf := w_buf b @ take n p\<rparr>) fp"
        using f by (simp add: b1_def)
      from "1.IH"(2) [OF loop False n_def e2 refl refl r(1) werr] obtain fs' b' fp' p' nn' flushed
        where ih: "bufio_Write_loop fs1 (b1\<lparr>w_buf := []\<rparr>) fp1 (drop n p) (nn + n)
                   = (fs', b', fp', p', nn')"
          "nn' + length p' = nn + n + length (drop n p)"
          "w_err b' = None" "at_end fs' fp'" "fpath fp' = fpath fp1" "fappend fp' = fappend fp1"
          "appended fs1 (fpath fp1) flushed fs'"
          "flushed @ w_buf b' @ p' = w_buf (b1\<lparr>w_buf := []\<rparr>) @ drop n p"
        by blast
      have lt: "n < length p" using loop by (simp add: n_def)
      have total: "appended fs (fpath fp) (w_buf b1 @ flushed) fs'"
        using r(4) ih(7) r(2) by (auto intro: appended_trans)
      have bytes: "(w_buf b1 @ flushed) @ w_buf b' @ p' = w_buf b @ p"
        using ih(8) by (simp add: b1_def)
      have count: "nn' + length p' = nn + length p" using ih(2) lt by simp
      from step ih(1) have "bufio_Write_loop fs b fp p nn = (fs', b', fp', p', nn')" by simp
      with count ih(3-6) r(2,3) total bytes show ?thesis by metis
    qed
  qed
qed

lemma bufio_Write_at_end:
  assumes "at_end fs fp" and "w_err b = None"
  shows "\<exists>b' fp' fs' flushed.
           bufio_Write fs b fp p = ((length p, None), b', fp', fs')
           \<and> w_err b' = None \<and> at_end fs' fp' \<and> fpath fp' = fpath fp
           \<and> fappend fp' = fappend fp
           \<and> appended fs (fpath fp) flushed fs'
           \<and> flushed @ w_buf b' = w_buf b @ p"
proof -
  from bufio_Write_loop_at_end [OF assms, of p 0] obtain fs' b' fp' p' nn' flushed where
    l: "bufio_Write_loop fs b fp p 0 = (fs', b', fp', p', nn')"
    and r: "nn' + length p' = 0 + length p" "w_err b' = None" "at_end fs' fp'"
      "fpath fp' = fpath fp" "fappend fp' = fappend fp" "appended fs (fpath fp) flushed fs'"
      "flushed @ w_buf b' @ p' = w_buf b @ p"
    by blast
  from l r(1,2) have "bufio_Write fs b fp p
                      = ((length p, None), b'\<lparr>w_buf := w_buf b' @ p'\<rparr>, fp', fs')"
    by (simp add: bufio_Write_def)
  with r show ?thesis by auto
qed

lemma wt_Write_open:
  assumes "writer_open fs wt"
  shows "\<exists>wt' fs' flushed.
           wt_Write fs wt p = Return ((length p, None), wt', fs')
           \<and> writer_open fs' wt' \<and> wt' = wt\<lparr>wt_fp := wt_fp wt', wt_wt := wt_wt wt'\<rparr>
           \<and> appended fs (cur_slab wt) flushed fs'
           \<and> flushed @ pending wt' = pending wt @ p"
proof -
  from assms obtain fp b where
    wt: "wt_fp wt = Some fp" "wt_wt wt = Some b" "at_end fs fp" "fpath fp = cur_slab wt"
      "w_err b = None"
    by (auto simp: writer_open_def split: option.splits)
  from bufio_Write_at_end [OF wt(3,5), of p] obtain b' fp' fs' flushed where
    w: "bufio_Write fs b fp p = ((length p, None), b', fp', fs')"
    and r: "w_err b' = None" "at_end fs' fp'" "fpath fp' = fpath fp"
      "appended fs (fpath fp) flushed fs'" "flushed @ w_buf b' = w_buf b @ p"
    by blast
  let ?wt' = "wt\<lparr>wt_fp := Some fp', wt_wt := Some b'\<rparr>"
  have "wt_Write fs wt p = Return ((length p, None), ?wt', fs')"
    using wt w by (simp add: wt_Write_def)
  moreover have "writer_open fs' ?wt'"
    using r wt(4) by (simp add: writer_open_def cur_slab_def)
  moreover have "appended fs (cur_slab wt) flushed fs'" using r(4) wt(4) by simp
  moreover have "flushed @ pending ?wt' = pending wt @ p"
    using r(5) wt(2) by (simp add: pending_def)
  ultimately show ?thesis by (intro exI [of _ ?wt'] exI [of _ fs'] exI [of _ flushed]) simp
qed

lemma Writer_Flush_open:
  assumes "writer_open fs wt"
  shows "\<exists>wt' fs'.
           Writer_Flush fs wt = Return (None, wt', fs')
           \<and> writer_open fs' wt' \<and> wt' = wt\<lparr>wt_fp := wt_fp wt', wt_wt := wt_wt wt'\<rparr>
           \<and> appended fs (cur_slab wt) (pending wt) fs'
           \<and> pending wt' = []"
proof -
  from assms obtain fp b where
    wt: "wt_fp wt = Some fp" "wt_wt wt = Some b" "at_end fs fp" "fpath fp = cur_slab wt"
      "w_err b = None"
    by (auto simp: writer_open_def split: option.splits)
  from bufio_Flush_at_end [OF wt(3,5)] obtain fp' fs' where
    f: "bufio_Flush fs b fp = (None, b\<lparr>w_buf := []\<rparr>, fp', fs')"
    and r: "at_end fs' fp'" "fpath fp' = fpath fp" "appended fs (fpath fp) (w_buf b) fs'"
    by blast
  let ?wt' = "wt\<lparr>wt_fp := Some fp', wt_wt := Some (b\<lparr>w_buf := []\<rparr>)\<rparr>"
  have "Writer_Flush fs wt = Return (None, ?wt', fs')"
    using wt f by (simp add: Writer_Flush_def)
  moreover have "writer_open fs' ?wt'"
    using r wt(4,5) by (simp add: writer_open_def cur_slab_def)
  moreover have "appended fs (cur_slab wt) (pending wt) fs'"
    using r(3) wt(2,4) by (simp add: pending_def)
  moreover have "pending ?wt' = []" by (simp add: pending_def)
  ultimately show ?thesis by (intro exI [of _ ?wt'] exI [of _ fs']) simp
qed

subsection \<open>Write on an open writer\<close>

lemma length_PutUint32 [simp]: "length (PutUint32 v) = 4"
  by (simp add: PutUint32_def)

lemma length_frame: "length (frame d) = 8 + length d"
  by (simp add: frame_def)

lemma writer_open_cong:
  "writer_open fs wt \<Longrightarrow> wt_fp wt' = wt_fp wt \<Longrightarrow> wt_wt wt' = wt_wt wt
   \<Longrightarrow> cur_slab wt' = cur_slab wt \<Longrightarrow> writer_open fs wt'"
  by (auto simp: writer_open_def split: option.splits)

text \<open>The three writes of \<^verbatim>\<open>Write\<close> on an open writer.\<close>

lemma Write_record_open:
  assumes "writer_open fs wt"
  shows "\<exists>wt3 fs3 flushed.
           Write_record fs wt d xx
             = Return (None, wt3\<lparr>wt_address := wt_address wt + of_nat (8 + length d)\<rparr>, fs3)
           \<and> writer_open fs3 wt3 \<and> wt3 = wt\<lparr>wt_fp := wt_fp wt3, wt_wt := wt_wt wt3\<rparr>
           \<and> appended fs (cur_slab wt) flushed fs3
           \<and> flushed @ pending wt3
               = pending wt @ PutUint32 (of_nat (length d)) @ PutUint32 xx @ d"
proof -
  from wt_Write_open [OF assms, of "PutUint32 (of_nat (length d))"]
  obtain wt1 fs1 fl1 where
    w1: "wt_Write fs wt (PutUint32 (of_nat (length d))) = Return ((4, None), wt1, fs1)"
    and o1: "writer_open fs1 wt1" and e1: "wt1 = wt\<lparr>wt_fp := wt_fp wt1, wt_wt := wt_wt wt1\<rparr>"
    and a1: "appended fs (cur_slab wt) fl1 fs1"
    and p1: "fl1 @ pending wt1 = pending wt @ PutUint32 (of_nat (length d))"
    by auto
  have c1: "cur_slab wt1 = cur_slab wt" by (subst e1) (simp add: cur_slab_def)
  from wt_Write_open [OF o1, of "PutUint32 xx"]
  obtain wt2 fs2 fl2 where
    w2: "wt_Write fs1 wt1 (PutUint32 xx) = Return ((4, None), wt2, fs2)"
    and o2: "writer_open fs2 wt2" and e2: "wt2 = wt1\<lparr>wt_fp := wt_fp wt2, wt_wt := wt_wt wt2\<rparr>"
    and a2: "appended fs1 (cur_slab wt1) fl2 fs2"
    and p2: "fl2 @ pending wt2 = pending wt1 @ PutUint32 xx"
    by auto
  have c2: "cur_slab wt2 = cur_slab wt" by (subst e2) (simp add: cur_slab_def c1 [unfolded cur_slab_def])
  from wt_Write_open [OF o2, of d]
  obtain wt3 fs3 fl3 where
    w3: "wt_Write fs2 wt2 d = Return ((length d, None), wt3, fs3)"
    and o3: "writer_open fs3 wt3" and e3: "wt3 = wt2\<lparr>wt_fp := wt_fp wt3, wt_wt := wt_wt wt3\<rparr>"
    and a3: "appended fs2 (cur_slab wt2) fl3 fs3"
    and p3: "fl3 @ pending wt3 = pending wt2 @ d"
    by auto
  have e: "wt3 = wt\<lparr>wt_fp := wt_fp wt3, wt_wt := wt_wt wt3\<rparr>"
    by (subst e3, subst e2, subst e1) simp
  have a: "wt_address wt3 = wt_address wt" by (subst e) simp
  have app: "appended fs (cur_slab wt) (fl1 @ fl2 @ fl3) fs3"
    using a1 a2 a3 c1 c2 by (auto intro: appended_trans)
  have "fl1 @ fl2 @ fl3 @ pending wt3 = fl1 @ fl2 @ pending wt2 @ d" using p3 by simp
  also have "\<dots> = fl1 @ pending wt1 @ PutUint32 xx @ d"
    using p2 by (metis append_assoc)
  also have "\<dots> = pending wt @ PutUint32 (of_nat (length d)) @ PutUint32 xx @ d"
    using p1 by (metis append_assoc)
  finally have bytes: "(fl1 @ fl2 @ fl3) @ pending wt3
                       = pending wt @ PutUint32 (of_nat (length d)) @ PutUint32 xx @ d"
    by simp
  have "Write_record fs wt d xx
        = Return (None, wt3\<lparr>wt_address := wt_address wt + of_nat (8 + length d)\<rparr>, fs3)"
    by (simp add: Write_record_def w1 w2 w3 a)
  then show ?thesis
    using o3 e app bytes by blast
qed

lemma unat_advance:
  assumes "unat (a :: uint64) + n < 2 ^ 64"
  shows "unat (a + of_nat n) = unat a + n"
proof -
  have "n < 2 ^ 64" using assms by simp
  then have "unat (of_nat n :: uint64) = n" by (simp add: unat_of_nat)
  then show ?thesis using assms by (simp add: unat_word_ariths)
qed

lemma greatest_not_present:
  assumes "list_all (\<lambda>p. \<not> (in_dir topic p \<and> has_suffix ''.slab'' p) \<or> p \<le> slab_name topic a)
                    (map fst (files fs))"
    and "a < b"
  shows "map_of (files fs) (slab_name topic b) = None"
proof (rule ccontr)
  assume "map_of (files fs) (slab_name topic b) \<noteq> None"
  then have "slab_name topic b \<in> set (map fst (files fs))"
    by (simp add: map_of_eq_None_iff)
  with assms(1) have "slab_name topic b \<le> slab_name topic a"
    using in_dir_slab_name [of topic b] has_suffix_slab_name [of topic b]
    by (simp add: list_all_iff Ball_def)
  moreover have "slab_name topic a < slab_name topic b" using assms(2) by (rule slab_name_mono)
  ultimately show False by simp
qed

lemma appended_keys:
  assumes "appended fs path p fs'"
  shows "map fst (files fs') = map fst (files fs)" "dirs fs' = dirs fs" "denied fs' = denied fs"
    "contents fs' path = contents fs path @ p"
    "q \<noteq> path \<Longrightarrow> contents fs' q = contents fs q"
    "q \<noteq> path \<Longrightarrow> map_of (files fs') q = map_of (files fs) q"
  using assms by (simp_all add: appended_def contents_def)

lemma appended_absent:
  assumes "appended fs path p fs'" and "map_of (files fs) q = None"
  shows "map_of (files fs') q = None"
  using assms by (metis appended_def map_of_eq_None_iff set_map)

text \<open>
  \<^verbatim>\<open>Write\<close> of a payload that is not empty, on a writer that is open on its log: it
  returns \<^verbatim>\<open>nil\<close> and the writer is again open on its log. Without a rollover the record
  follows the bytes of the current slab and of the buffer. With a rollover the whole
  record is in the old slab, whose file is closed, and the writer is on a new, empty
  slab. No other file changes.
\<close>

lemma Writer_Write_log_ok:
  assumes ok: "log_ok fs wt" and room: "unat (wt_address wt) + (8 + length d) < 2 ^ 64"
    and ne: "d \<noteq> []"
  shows "\<exists>wt' fs'. Writer_Write fs wt d = Return (None, wt', fs')
        \<and> log_ok fs' wt'
        \<and> wt_topic wt' = wt_topic wt \<and> wt_slabSizeHint wt' = wt_slabSizeHint wt
        \<and> wt_address wt' = wt_address wt + of_nat (8 + length d)
        \<and> dirs fs' = dirs fs \<and> denied fs' = denied fs
        \<and> (\<forall>q. q \<noteq> cur_slab wt \<and> q \<noteq> cur_slab wt'
                \<longrightarrow> map_of (files fs') q = map_of (files fs) q)
        \<and> (if wt_slabSizeHint wt < wt_address wt + of_nat (8 + length d) - wt_base wt
           then wt_base wt' = wt_address wt' \<and> pending wt' = []
                \<and> contents fs' (cur_slab wt) = contents fs (cur_slab wt) @ pending wt @ frame d
                \<and> map_of (files fs) (cur_slab wt') = None
                \<and> contents fs' (cur_slab wt') = []
                \<and> wt_fp wt' = Some \<lparr>fpath = cur_slab wt', fpos = 0, fappend = False,
                                      fclosed = False\<rparr>
                \<and> map fst (files fs') = map fst (files fs) @ [cur_slab wt']
                \<and> (\<exists>wt4 fs3 wt6 fs6 fp6 wt7.
                      Write_record fs (wt\<lparr>wt_locked := True\<rparr>) d (xxh32 d)
                        = Return (None, wt4, fs3)
                      \<and> Write_flush_close fs3 wt4 = Return (wt6, fs6)
                      \<and> wt_fp wt6 = Some fp6 \<and> fpath fp6 = cur_slab wt \<and> fclosed fp6
                      \<and> contents fs6 (cur_slab wt)
                          = contents fs (cur_slab wt) @ pending wt @ frame d
                      \<and> Writer_create fs6 wt6 = Return (None, wt7, fs')
                      \<and> wt' = wt7\<lparr>wt_locked := False\<rparr>)
           else wt_base wt' = wt_base wt
                \<and> map fst (files fs') = map fst (files fs)
                \<and> contents fs' (cur_slab wt) @ pending wt'
                    = contents fs (cur_slab wt) @ pending wt @ frame d)"
proof -
  let ?topic = "wt_topic wt" and ?path = "cur_slab wt"
  define addr where "addr = wt_address wt + of_nat (8 + length d)"
  from ok have nl: "\<not> wt_locked wt" and op: "writer_open fs wt"
    and eq: "unat (wt_address wt) = unat (wt_base wt) + length (contents fs ?path) + length (pending wt)"
    and pl: "plain_topic ?topic"
    and dir: "?topic \<in> set (dirs fs)"
    and den: "list_all (\<lambda>p. p \<noteq> ?topic \<and> \<not> in_dir ?topic p) (denied fs)"
    and sub: "list_all (\<lambda>p. \<not> (in_dir ?topic p \<and> has_suffix ''.slab'' p)) (dirs fs)"
    and gr: "list_all (\<lambda>p. \<not> (in_dir ?topic p \<and> has_suffix ''.slab'' p) \<or> p \<le> ?path)
                      (map fst (files fs))"
    by (simp_all add: log_ok_def)
  let ?wt0 = "wt\<lparr>wt_locked := True\<rparr>"
  have op0: "writer_open fs ?wt0"
    using op by (rule writer_open_cong) (simp_all add: cur_slab_def)
  from Write_record_open [OF op0, of d "xxh32 d"] obtain wt3 fs3 flushed where
    rec0: "Write_record fs ?wt0 d (xxh32 d)
           = Return (None, wt3\<lparr>wt_address := wt_address ?wt0 + of_nat (8 + length d)\<rparr>, fs3)"
    and op3: "writer_open fs3 wt3"
    and e3: "wt3 = ?wt0\<lparr>wt_fp := wt_fp wt3, wt_wt := wt_wt wt3\<rparr>"
    and app: "appended fs (cur_slab ?wt0) flushed fs3"
    and bytes: "flushed @ pending wt3
                = pending ?wt0 @ PutUint32 (of_nat (length d)) @ PutUint32 (xxh32 d) @ d"
    by blast
  have f3: "wt_topic wt3 = ?topic" "wt_base wt3 = wt_base wt" "wt_address wt3 = wt_address wt"
    "wt_slabSizeHint wt3 = wt_slabSizeHint wt" "wt_locked wt3"
    by (subst e3, simp)+
  have app': "appended fs ?path flushed fs3" using app by (simp add: cur_slab_def)
  have bytes': "flushed @ pending wt3 = pending wt @ frame d"
    using bytes by (simp add: pending_def frame_def)
  have c3: "cur_slab wt3 = ?path" by (simp add: cur_slab_def f3)
  note k3 = appended_keys [OF app']
  have total: "contents fs3 ?path @ pending wt3 = contents fs ?path @ pending wt @ frame d"
    using k3(4) bytes' by simp
  have addr: "unat addr = unat (wt_address wt) + (8 + length d)"
    unfolding addr_def using room by (rule unat_advance)
  define wt4 where "wt4 = wt3\<lparr>wt_address := addr\<rparr>"
  have rec: "Write_record fs ?wt0 d (xxh32 d) = Return (None, wt4, fs3)"
    using rec0 by (simp only: wt4_def addr_def) simp
  have op4: "writer_open fs3 wt4"
    using op3 by (rule writer_open_cong) (simp_all add: wt4_def cur_slab_def)
  have f4: "wt_topic wt4 = ?topic" "wt_base wt4 = wt_base wt" "wt_address wt4 = addr"
    "wt_slabSizeHint wt4 = wt_slabSizeHint wt" "pending wt4 = pending wt3"
    "cur_slab wt4 = ?path"
    by (simp_all add: wt4_def f3 pending_def cur_slab_def)
  have body: "Writer_Write fs wt d =
      (if wt_slabSizeHint wt < addr - wt_base wt
       then bind_outcome (Write_flush_close fs3 wt4) (\<lambda>(wt6, fs5).
            bind_outcome (Writer_create fs5 wt6) (\<lambda>(e2, wt7, fs7).
              Return (None, wt7\<lparr>wt_locked := False\<rparr>, fs7)))
       else Return (None, wt4\<lparr>wt_locked := False\<rparr>, fs3))"
    using nl ne by (simp add: Writer_Write_def Checksum32_def rec f4)
  have "\<exists>wt' fs'. Writer_Write fs wt d = Return (None, wt', fs')
        \<and> log_ok fs' wt'
        \<and> wt_topic wt' = wt_topic wt \<and> wt_slabSizeHint wt' = wt_slabSizeHint wt
        \<and> wt_address wt' = addr
        \<and> dirs fs' = dirs fs \<and> denied fs' = denied fs
        \<and> (\<forall>q. q \<noteq> cur_slab wt \<and> q \<noteq> cur_slab wt'
                \<longrightarrow> map_of (files fs') q = map_of (files fs) q)
        \<and> (if wt_slabSizeHint wt < addr - wt_base wt
           then wt_base wt' = wt_address wt' \<and> pending wt' = []
                \<and> contents fs' (cur_slab wt) = contents fs (cur_slab wt) @ pending wt @ frame d
                \<and> map_of (files fs) (cur_slab wt') = None
                \<and> contents fs' (cur_slab wt') = []
                \<and> wt_fp wt' = Some \<lparr>fpath = cur_slab wt', fpos = 0, fappend = False,
                                      fclosed = False\<rparr>
                \<and> map fst (files fs') = map fst (files fs) @ [cur_slab wt']
                \<and> (\<exists>wt4 fs3 wt6 fs6 fp6 wt7.
                      Write_record fs (wt\<lparr>wt_locked := True\<rparr>) d (xxh32 d)
                        = Return (None, wt4, fs3)
                      \<and> Write_flush_close fs3 wt4 = Return (wt6, fs6)
                      \<and> wt_fp wt6 = Some fp6 \<and> fpath fp6 = cur_slab wt \<and> fclosed fp6
                      \<and> contents fs6 (cur_slab wt)
                          = contents fs (cur_slab wt) @ pending wt @ frame d
                      \<and> Writer_create fs6 wt6 = Return (None, wt7, fs')
                      \<and> wt' = wt7\<lparr>wt_locked := False\<rparr>)
           else wt_base wt' = wt_base wt
                \<and> map fst (files fs') = map fst (files fs)
                \<and> contents fs' (cur_slab wt) @ pending wt'
                    = contents fs (cur_slab wt) @ pending wt @ frame d)"
  proof (cases "wt_slabSizeHint wt < addr - wt_base wt")
    case False
    let ?wt' = "wt4\<lparr>wt_locked := False\<rparr>"
    have res: "Writer_Write fs wt d = Return (None, ?wt', fs3)" using body False by simp
    have g: "wt_topic ?wt' = ?topic" "wt_base ?wt' = wt_base wt" "wt_address ?wt' = addr"
      "wt_slabSizeHint ?wt' = wt_slabSizeHint wt" "pending ?wt' = pending wt3"
      "cur_slab ?wt' = ?path" "\<not> wt_locked ?wt'"
      using f4 by (simp_all add: pending_def cur_slab_def)
    have "writer_open fs3 ?wt'"
      using op4 by (rule writer_open_cong) (simp_all add: cur_slab_def)
    moreover have "length (contents fs3 ?path) + length (pending wt3)
                   = length (contents fs ?path) + length (pending wt) + (8 + length d)"
      using arg_cong [OF total, of length] by (simp add: length_frame)
    then have "unat (wt_address ?wt')
               = unat (wt_base ?wt') + length (contents fs3 (cur_slab ?wt')) + length (pending ?wt')"
      using addr eq by (simp add: g)
    ultimately have "log_ok fs3 ?wt'"
      using pl dir den sub gr g(7) by (simp only: log_ok_def g k3 simp_thms)
    moreover have "\<forall>q. q \<noteq> ?path \<and> q \<noteq> cur_slab ?wt'
                       \<longrightarrow> map_of (files fs3) q = map_of (files fs) q"
      using k3(6) by blast
    ultimately show ?thesis
      using res total False g k3(1,2,3)
      by (intro exI [of _ ?wt'] exI [of _ fs3]) (simp only: g if_False simp_thms)
  next
    case True
    from Writer_Flush_open [OF op4] obtain wt5 fs5 where
      fl: "Writer_Flush fs3 wt4 = Return (None, wt5, fs5)"
      and op5: "writer_open fs5 wt5"
      and e5: "wt5 = wt4\<lparr>wt_fp := wt_fp wt5, wt_wt := wt_wt wt5\<rparr>"
      and app5: "appended fs3 (cur_slab wt4) (pending wt4) fs5"
      by blast
    from op5 obtain fp5 where fp5: "wt_fp wt5 = Some fp5" "\<not> fclosed fp5"
      "fpath fp5 = cur_slab wt5"
      by (auto simp: writer_open_def at_end_def split: option.splits)
    have c5: "cur_slab wt5 = ?path" by (subst e5) (simp add: cur_slab_def f4)
    have app5': "appended fs3 ?path (pending wt3) fs5" using app5 by (simp only: f4)
    note k5 = appended_keys [OF app5']
    have old: "contents fs5 ?path = contents fs ?path @ pending wt @ frame d"
      using k5(4) total by simp
    define wt6 where "wt6 = wt5\<lparr>wt_fp := Some (fp5\<lparr>fclosed := True\<rparr>)\<rparr>"
    have fc: "Write_flush_close fs3 wt4 = Return (wt6, fs5)"
      using fl fp5 by (simp add: Write_flush_close_def file_Close_def wt6_def)
    have f6: "wt_topic wt6 = ?topic" "wt_address wt6 = addr"
      "wt_slabSizeHint wt6 = wt_slabSizeHint wt"
      unfolding wt6_def by (subst e5, simp add: f4)+
    let ?new = "slab_name ?topic addr"
    have "unat (wt_base wt) < unat addr" using addr eq by simp
    then have lt: "wt_base wt < addr" by (simp add: word_less_nat_alt)
    then have newer: "?path < ?new" unfolding cur_slab_def by (rule slab_name_mono)
    have absent: "map_of (files fs) ?new = None"
      using gr lt unfolding cur_slab_def by (rule greatest_not_present)
    then have fresh3: "map_of (files fs3) ?new = None" by (rule appended_absent [OF app'])
    then have fresh: "map_of (files fs5) ?new = None" by (rule appended_absent [OF app5'])
    have "p \<noteq> ?topic \<and> \<not> in_dir ?topic p" if "p \<in> set (denied fs)" for p
      using den that by (simp add: list_all_iff)
    then have "?new \<notin> set (denied fs)" "?topic \<notin> set (denied fs)"
      using in_dir_slab_name [of ?topic addr] by blast+
    then have allowed: "?new \<notin> set (denied fs5)" "?topic \<notin> set (denied fs5)"
      by (simp_all add: k5 k3)
    have dir5: "?topic \<in> set (dirs fs5)" using dir by (simp add: k5 k3)
    let ?fs7 = "fs5\<lparr>files := files fs5 @ [(?new, [])]\<rparr>"
    let ?wt7 = "wt6\<lparr>wt_base := addr,
                   wt_fp := Some \<lparr>fpath = ?new, fpos = 0, fappend = False, fclosed = False\<rparr>,
                   wt_wt := Some \<lparr>w_buf = [], w_err = None\<rparr>\<rparr>"
    have create: "Writer_create fs5 wt6 = Return (None, ?wt7, ?fs7)"
      using fresh allowed dir5
      by (simp add: Writer_create_def MkdirAll_def OpenFile_def Let_def f6 dirname_slab_name
            Writer_Flush_def bufio_Flush_def)
    let ?wt' = "?wt7\<lparr>wt_locked := False\<rparr>"
    have res: "Writer_Write fs wt d = Return (None, ?wt', ?fs7)"
      using body True fc create by simp
    have g: "wt_topic ?wt' = ?topic" "wt_base ?wt' = addr" "wt_address ?wt' = addr"
      "wt_slabSizeHint ?wt' = wt_slabSizeHint wt" "pending ?wt' = []"
      "cur_slab ?wt' = ?new" "\<not> wt_locked ?wt'"
      "wt_fp ?wt' = Some \<lparr>fpath = ?new, fpos = 0, fappend = False, fclosed = False\<rparr>"
      "wt_wt ?wt' = Some \<lparr>w_buf = [], w_err = None\<rparr>"
      using f6 by (simp_all add: pending_def cur_slab_def)
    have new7: "map_of (files ?fs7) ?new = Some []"
      using fresh by (simp add: map_add_def)
    then have empty7: "contents ?fs7 ?new = []" by (simp add: contents_def)
    have other7: "map_of (files ?fs7) q = map_of (files fs5) q" if "q \<noteq> ?new" for q
      using that by (auto simp: map_add_def split: option.splits)
    have "map_of (files ?fs7) ?path = map_of (files fs5) ?path"
      using newer by (intro other7) simp
    then have old7: "contents ?fs7 ?path = contents fs ?path @ pending wt @ frame d"
      using old by (simp add: contents_def)
    have frame7: "\<forall>q. q \<noteq> ?path \<and> q \<noteq> ?new \<longrightarrow> map_of (files ?fs7) q = map_of (files fs) q"
      using other7 k5(6) k3(6) by simp
    have keys7: "map fst (files ?fs7) = map fst (files fs) @ [?new]"
      by (simp add: k5 k3)
    have env7: "dirs ?fs7 = dirs fs" "denied ?fs7 = denied fs" by (simp_all add: k5 k3)
    have "writer_open ?fs7 ?wt'"
      using new7 empty7 by (simp add: writer_open_def g at_end_def Size_def)
    moreover have "list_all (\<lambda>p. \<not> (in_dir ?topic p \<and> has_suffix ''.slab'' p) \<or> p \<le> ?new)
                     (map fst (files ?fs7))"
      using gr newer by (auto simp: list_all_iff k5 k3)
    ultimately have ok7: "log_ok ?fs7 ?wt'"
      using pl dir5 den sub empty7 by (simp add: log_ok_def g k5 k3)
    have parts: "\<exists>wt4 fs3 wt6 fs6 fp6 wt7.
                      Write_record fs (wt\<lparr>wt_locked := True\<rparr>) d (xxh32 d)
                        = Return (None, wt4, fs3)
                      \<and> Write_flush_close fs3 wt4 = Return (wt6, fs6)
                      \<and> wt_fp wt6 = Some fp6 \<and> fpath fp6 = cur_slab wt \<and> fclosed fp6
                      \<and> contents fs6 (cur_slab wt)
                          = contents fs (cur_slab wt) @ pending wt @ frame d
                      \<and> Writer_create fs6 wt6 = Return (None, wt7, ?fs7)
                      \<and> ?wt' = wt7\<lparr>wt_locked := False\<rparr>"
      using rec fc old create fp5(3) c5
      by (intro exI [of _ wt4] exI [of _ fs3] exI [of _ wt6] exI [of _ fs5]
                exI [of _ "fp5\<lparr>fclosed := True\<rparr>"] exI [of _ ?wt7])
         (simp add: wt6_def)
    show ?thesis
      using res ok7 True g old7 empty7 absent frame7 keys7 env7 parts
      by (intro exI [of _ ?wt'] exI [of _ ?fs7]) (simp only: g if_True simp_thms)
  qed
  then show ?thesis unfolding addr_def .
qed

subsection \<open>A fresh log\<close>


subsection \<open>The segment directory scanner\<close>

lemma bind_outcome_Return:
  "bind_outcome m f = Return y \<Longrightarrow> \<exists>v. m = Return v \<and> f v = Return y"
  by (cases m) auto

lemma plain_not_unclosed: "plain_topic topic \<Longrightarrow> \<not> unclosed_class topic"
  by (auto simp: plain_topic_def unclosed_class_def list_all_iff metachar_def)

text \<open>
  C9, as stated, fails: \<^verbatim>\<open>SlabFiles\<close> has no error result. When the glob reports an
  error, as it does for the topic \<^verbatim>\<open>[\<close>, the call panics; and a topic directory that
  exists, holds a segment and cannot be listed gives the empty list, as an absent
  directory does.
\<close>

theorem SlabFiles_counterexample:
  "SlabFiles \<lparr>files = [], dirs = [], denied = []\<rparr> ''['' = Panic
   \<and> SlabFiles \<lparr>files = [(''t/00000000000000000000.slab'', [1, 2, 3])], dirs = [''t''],
                 denied = [''t'']\<rparr> ''t'' = Return []"
  by (simp add: SlabFiles_def glob_defs)

text \<open>
  C9, amended: for a topic that is a plain path, \<^verbatim>\<open>SlabFiles\<close> returns the empty list,
  and no error, when the topic directory does not exist or has no entry with the name
  of a segment file. It has no error result: whenever the glob reports an error, which
  it does for a topic with a character class that is never closed, the call panics.
\<close>

theorem SlabFiles_outcomes:
  "(plain_topic topic \<and> topic \<notin> set (dirs fs) \<longrightarrow> SlabFiles fs topic = Return [])
   \<and> (plain_topic topic
        \<and> (\<forall>p \<in> set (map fst (files fs) @ dirs fs).
              \<not> (in_dir topic p \<and> has_suffix ''.slab'' p))
        \<longrightarrow> SlabFiles fs topic = Return [])
   \<and> (\<forall>e. Glob_slab fs topic = Return (Inl e) \<longrightarrow> SlabFiles fs topic = Panic)
   \<and> (unclosed_class topic \<longrightarrow>
        Glob_slab fs topic = Return (Inl ErrBadPattern) \<and> SlabFiles fs topic = Panic)"
  using plain_not_unclosed [of topic]
  by (auto simp: SlabFiles_def Glob_slab_def filter_empty_conv list_ex_iff)

theorem SlabFiles_outcomes_witness:
  "SlabFiles \<lparr>files = [], dirs = [], denied = []\<rparr> ''t'' = Return []
   \<and> SlabFiles \<lparr>files = [(''t/notes.txt'', [1, 2, 3])], dirs = [''t''], denied = []\<rparr> ''t''
       = Return []
   \<and> Glob_slab \<lparr>files = [], dirs = [], denied = []\<rparr> ''['' = Return (Inl ErrBadPattern)
   \<and> SlabFiles \<lparr>files = [], dirs = [], denied = []\<rparr> ''['' = Panic"
proof -
  let ?fs0 = "\<lparr>files = [], dirs = [], denied = []\<rparr>"
  let ?fs1 = "\<lparr>files = [(''t/notes.txt'', [1, 2, 3 :: byte])], dirs = [''t''], denied = []\<rparr>"
  have absent: "plain_topic ''t'' \<and> ''t'' \<notin> set (dirs ?fs0)" by (simp add: plain_t)
  have no_slab: "plain_topic ''t''
        \<and> (\<forall>p \<in> set (map fst (files ?fs1) @ dirs ?fs1).
              \<not> (in_dir ''t'' p \<and> has_suffix ''.slab'' p))"
    by (simp add: plain_t in_dir_def has_suffix_def)
  have bad: "unclosed_class ''[''" by (simp add: unclosed_class_def)
  from SlabFiles_outcomes [of "''t''" ?fs0] absent
  have a: "SlabFiles ?fs0 ''t'' = Return []" by blast
  from SlabFiles_outcomes [of "''t''" ?fs1] no_slab
  have b: "SlabFiles ?fs1 ''t'' = Return []" by blast
  from SlabFiles_outcomes [of "''[''" ?fs0] bad
  have c: "Glob_slab ?fs0 ''['' = Return (Inl ErrBadPattern)" "SlabFiles ?fs0 ''['' = Panic"
    by blast+
  from SlabFiles_outcomes [of "''[''" ?fs0] c(1)
  have d: "SlabFiles ?fs0 ''['' = Panic" by blast
  from a b c(1) d show ?thesis by simp
qed

subsection \<open>The topic parameter of Seek\<close>

lemma search_slabs_mem:
  "search_slabs slabs a (s0, b0) = Return (f, b) \<Longrightarrow> f = s0 \<or> f \<in> set slabs"
  by (induction slabs arbitrary: s0 b0) (auto simp: Let_def split: if_splits)

lemma Reader_Seek_keeps_topic:
  "Reader_Seek fs rd t a = Return (err, rd') \<Longrightarrow> rd_topic rd' = rd_topic rd"
  by (auto simp: Reader_Seek_def Let_def Seek_SET_def
           split: option.splits if_splits prod.splits sum.splits dest!: bind_outcome_Return)

lemma SlabFiles_plain:
  assumes "SlabFiles fs topic = Return slabs" and "plain_topic topic" and "p \<in> set slabs"
  shows "in_dir topic p \<and> has_suffix ''.slab'' p \<and> p \<in> set (map fst (files fs))"
  using assms
  by (auto simp: SlabFiles_def Glob_slab_def split: if_splits sum.splits dest!: bind_outcome_Return)

text \<open>
  C10: \<^verbatim>\<open>Seek\<close> ignores its topic parameter, and lists and selects the segment file
  from the topic stored in the reader. Its outcome is the same for all values of the
  parameter. It panics when the listing of the stored topic panics, and returns
  \<^verbatim>\<open>ErrInvalidTopic\<close> when that listing is empty. Otherwise the file it selects is one
  of that listing, hence in the directory of the stored topic when that is a plain
  path, and if the file can be opened the reader holds it, open, with the base that the
  search found; the error is not \<^verbatim>\<open>ErrInvalidTopic\<close>. The stored topic is the one
  \<^verbatim>\<open>NewReader\<close> was given.
\<close>

theorem Seek_ignores_topic_parameter:
  "Reader_Seek fs rd t a = Reader_Seek fs rd t' a
   \<and> (SlabFiles fs (rd_topic rd) = Panic \<longrightarrow> Reader_Seek fs rd t a = Panic)
   \<and> (SlabFiles fs (rd_topic rd) = Return [] \<longrightarrow>
        (\<exists>rd'. Reader_Seek fs rd t a = Return (Some ErrInvalidTopic, rd')))
   \<and> (\<forall>slabs slabFile base fp.
         SlabFiles fs (rd_topic rd) = Return slabs \<and> slabs \<noteq> []
         \<and> search_slabs slabs a (hd slabs, rd_base rd) = Return (slabFile, base)
         \<and> fst (OpenFile fs slabFile O_RDONLY) = Inr fp
         \<longrightarrow> slabFile \<in> set slabs
             \<and> (plain_topic (rd_topic rd) \<longrightarrow> in_dir (rd_topic rd) slabFile)
             \<and> (\<exists>err rd' fp'. Reader_Seek fs rd t a = Return (err, rd')
                   \<and> err \<noteq> Some ErrInvalidTopic
                   \<and> rd_topic rd' = rd_topic rd \<and> rd_base rd' = base
                   \<and> rd_fp rd' = Some fp' \<and> fpath fp' = slabFile \<and> \<not> fclosed fp'))
   \<and> (\<forall>rd' err. NewReader fs topic a = Return (rd', err) \<longrightarrow> rd_topic rd' = topic)"
proof (intro conjI allI impI)
  show "Reader_Seek fs rd t a = Reader_Seek fs rd t' a" by (simp add: Reader_Seek_def)
next
  assume "SlabFiles fs (rd_topic rd) = Panic"
  then show "Reader_Seek fs rd t a = Panic"
    by (cases "rd_fp rd") (simp_all add: Reader_Seek_def)
next
  assume "SlabFiles fs (rd_topic rd) = Return []"
  then show "\<exists>rd'. Reader_Seek fs rd t a = Return (Some ErrInvalidTopic, rd')"
    by (cases "rd_fp rd") (simp_all add: Reader_Seek_def)
next
  fix slabs slabFile base fp
  assume h: "SlabFiles fs (rd_topic rd) = Return slabs \<and> slabs \<noteq> []
         \<and> search_slabs slabs a (hd slabs, rd_base rd) = Return (slabFile, base)
         \<and> fst (OpenFile fs slabFile O_RDONLY) = Inr fp"
  then have "slabFile = hd slabs \<or> slabFile \<in> set slabs" by (intro search_slabs_mem) auto
  with h show mem: "slabFile \<in> set slabs" by auto
  show "in_dir (rd_topic rd) slabFile" if "plain_topic (rd_topic rd)"
    using SlabFiles_plain [of fs "rd_topic rd" slabs slabFile] h that mem by simp
  have fp: "\<not> fclosed fp" "fpath fp = slabFile" "fpos fp = 0"
    using h by (auto simp: OpenFile_def Let_def split: if_splits)
  show "\<exists>err rd' fp'. Reader_Seek fs rd t a = Return (err, rd')
                   \<and> err \<noteq> Some ErrInvalidTopic
                   \<and> rd_topic rd' = rd_topic rd \<and> rd_base rd' = base
                   \<and> rd_fp rd' = Some fp' \<and> fpath fp' = slabFile \<and> \<not> fclosed fp'"
    using h fp
    by (cases "rd_fp rd")
       (auto simp: Reader_Seek_def Let_def Seek_SET_def split: if_splits)
next
  fix rd' err
  assume "NewReader fs topic a = Return (rd', err)"
  then show "rd_topic rd' = topic"
    using Reader_Seek_keeps_topic
      [of fs "\<lparr>rd_topic = topic, rd_base = 0, rd_fp = None, rd_rd = None\<rparr>" topic a err rd']
    by (auto simp: NewReader_def dest!: bind_outcome_Return)
qed

theorem Seek_ignores_topic_parameter_witness:
  "NewReader \<lparr>files = [(''t/00000000000000000000.slab'', [1, 0, 0, 0, 86, 116, 13, 85, 97]),
                       (''u/00000000000000000000.slab'', [1, 0, 0, 0, 191, 173, 12, 162, 98])],
              dirs = [''t'', ''u''], denied = []\<rparr> ''t'' 0
     = Return (\<lparr>rd_topic = ''t'', rd_base = 0,
                 rd_fp = Some \<lparr>fpath = ''t/00000000000000000000.slab'', fpos = 0,
                               fappend = False, fclosed = False\<rparr>,
                 rd_rd = Some \<lparr>r_buf = [], r_live = True\<rparr>\<rparr>, None)
   \<and> (\<exists>err rd' fp'.
         Reader_Seek \<lparr>files = [(''t/00000000000000000000.slab'', [1, 0, 0, 0, 86, 116, 13, 85, 97]),
                               (''u/00000000000000000000.slab'', [1, 0, 0, 0, 191, 173, 12, 162, 98])],
                      dirs = [''t'', ''u''], denied = []\<rparr>
           \<lparr>rd_topic = ''t'', rd_base = 0,
              rd_fp = Some \<lparr>fpath = ''t/00000000000000000000.slab'', fpos = 0,
                            fappend = False, fclosed = False\<rparr>,
              rd_rd = Some \<lparr>r_buf = [], r_live = True\<rparr>\<rparr> ''u'' 0
         = Return (err, rd')
         \<and> err \<noteq> Some ErrInvalidTopic \<and> rd_topic rd' = ''t''
         \<and> rd_fp rd' = Some fp' \<and> fpath fp' = ''t/00000000000000000000.slab''
         \<and> in_dir ''t'' (fpath fp') \<and> \<not> fclosed fp')"
proof -
  let ?fs = "\<lparr>files = [(''t/00000000000000000000.slab'', [1, 0, 0, 0, 86, 116, 13, 85, 97 :: byte]),
                       (''u/00000000000000000000.slab'', [1, 0, 0, 0, 191, 173, 12, 162, 98])],
              dirs = [''t'', ''u''], denied = []\<rparr>"
  let ?rd = "\<lparr>rd_topic = ''t'', rd_base = 0,
              rd_fp = Some \<lparr>fpath = ''t/00000000000000000000.slab'', fpos = 0,
                            fappend = False, fclosed = False\<rparr>,
              rd_rd = Some \<lparr>r_buf = [], r_live = True\<rparr>\<rparr>"
  let ?fp = "\<lparr>fpath = ''t/00000000000000000000.slab'', fpos = 0, fappend = False, fclosed = False\<rparr>"
  have new: "NewReader ?fs ''t'' 0 = Return (?rd, None)"
    by (simp add: reader_defs Atoi_0)
  have slabs: "SlabFiles ?fs (rd_topic ?rd) = Return [''t/00000000000000000000.slab'']"
    by (simp add: SlabFiles_def glob_defs in_dir_def has_suffix_def)
  have sel: "search_slabs [''t/00000000000000000000.slab''] 0
               (hd [''t/00000000000000000000.slab''], rd_base ?rd)
             = Return (''t/00000000000000000000.slab'', 0)"
    by (simp add: Atoi_0 uint64_of_int_def)
  have opn: "fst (OpenFile ?fs ''t/00000000000000000000.slab'' O_RDONLY) = Inr ?fp"
    by (simp add: OpenFile_def dirname_def)
  from Seek_ignores_topic_parameter [of ?fs ?rd "''u''" 0 "''u''" "''t''"]
  have "\<forall>slabs slabFile base fp.
         SlabFiles ?fs (rd_topic ?rd) = Return slabs \<and> slabs \<noteq> []
         \<and> search_slabs slabs 0 (hd slabs, rd_base ?rd) = Return (slabFile, base)
         \<and> fst (OpenFile ?fs slabFile O_RDONLY) = Inr fp
         \<longrightarrow> slabFile \<in> set slabs
             \<and> (plain_topic (rd_topic ?rd) \<longrightarrow> in_dir (rd_topic ?rd) slabFile)
             \<and> (\<exists>err rd' fp'. Reader_Seek ?fs ?rd ''u'' 0 = Return (err, rd')
                   \<and> err \<noteq> Some ErrInvalidTopic
                   \<and> rd_topic rd' = rd_topic ?rd \<and> rd_base rd' = base
                   \<and> rd_fp rd' = Some fp' \<and> fpath fp' = slabFile \<and> \<not> fclosed fp')"
    by blast
  from this [rule_format, of "[''t/00000000000000000000.slab'']" "''t/00000000000000000000.slab''" 0 ?fp]
       slabs sel opn
  have "in_dir ''t'' ''t/00000000000000000000.slab''
        \<and> (\<exists>err rd' fp'. Reader_Seek ?fs ?rd ''u'' 0 = Return (err, rd')
                   \<and> err \<noteq> Some ErrInvalidTopic
                   \<and> rd_topic rd' = ''t'' \<and> rd_base rd' = 0
                   \<and> rd_fp rd' = Some fp' \<and> fpath fp' = ''t/00000000000000000000.slab''
                   \<and> \<not> fclosed fp')"
    by (simp add: plain_t)
  with new show ?thesis by auto
qed

subsection \<open>Seeking and reading\<close>

text \<open>
  C3: \<^verbatim>\<open>Seek\<close> to the address at the end of the last segment should establish a reader
  state that is valid for that address and report \<^verbatim>\<open>ErrEndOfLog\<close>. On the log of two
  records (18 bytes in the segment with base 0), \<^verbatim>\<open>Seek\<close> to address 18 does return
  \<^verbatim>\<open>ErrEndOfLog\<close>, and the file it has opened has 18 bytes, but the cursor of that file
  is at 0, not at \<open>address - base = 18\<close>, under an empty buffered reader: \<^verbatim>\<open>Read\<close> on
  this reader returns the first record of the segment, \<^verbatim>\<open>"a"\<close>, with no error.
\<close>

theorem Seek_at_end_of_log:
  "bind_outcome written_ab (\<lambda>(wt, fs).
     bind_outcome
       (Reader_Seek fs \<lparr>rd_topic = ''t'', rd_base = 0, rd_fp = None, rd_rd = None\<rparr> ''t'' 18)
       (\<lambda>(err, rd).
     bind_outcome (Reader_Read fs rd) (\<lambda>((payload, err2), rd2).
       Return (Size fs (the (rd_fp rd)), err, rd, payload, err2))))
   = Return (18, Some ErrEndOfLog,
             \<lparr>rd_topic = ''t'', rd_base = 0,
                rd_fp = Some \<lparr>fpath = ''t/00000000000000000000.slab'', fpos = 0,
                              fappend = False, fclosed = False\<rparr>,
                rd_rd = Some \<lparr>r_buf = [], r_live = True\<rparr>\<rparr>,
             Some [97], None)"
  by (simp add: written_ab_eq reader_defs Atoi_0 Checksum32_def xxh32_a)

text \<open>
  C2: \<^verbatim>\<open>Seek\<close> to an address inside a segment should leave the cursor at
  \<open>address - base\<close>. On the log of two records (18 bytes in the segment with base 0),
  \<^verbatim>\<open>Seek\<close> to address 9 hands the offset \<^verbatim>\<open>int64(rd.base - address) = -9\<close> to the file,
  which refuses it: \<^verbatim>\<open>Seek\<close> returns that error, the cursor is at 0 and no buffered
  reader is set.
\<close>

theorem Seek_inside_segment:
  "bind_outcome written_ab (\<lambda>(wt, fs).
     Reader_Seek fs \<lparr>rd_topic = ''t'', rd_base = 0, rd_fp = None, rd_rd = None\<rparr> ''t'' 9)
   = Return (Some EINVAL,
             \<lparr>rd_topic = ''t'', rd_base = 0,
                rd_fp = Some \<lparr>fpath = ''t/00000000000000000000.slab'', fpos = 0,
                              fappend = False, fclosed = False\<rparr>,
                rd_rd = None\<rparr>)"
  by (simp add: written_ab_eq reader_defs Atoi_0)

subsection \<open>Reading\<close>

text \<open>
  C1: a record written and flushed should be read back from the address of its header.
  The second record \<^verbatim>\<open>"b"\<close> of the log was written at address 9 (the writer's address
  after the first record). \<^verbatim>\<open>NewReader\<close> at address 9 returns the error of the refused
  seek, and \<^verbatim>\<open>Read\<close> on the reader it returns panics, its \<^verbatim>\<open>rd.rd\<close> being nil.
\<close>

theorem Read_at_second_record_address:
  "bind_outcome written_a (\<lambda>(wt, fs). Return (wt_address wt)) = Return 9
   \<and> bind_outcome written_ab (\<lambda>(wt, fs).
         bind_outcome (NewReader fs ''t'' 9) (\<lambda>(rd, err). Return (err, Reader_Read fs rd)))
       = Return (Some EINVAL, Panic)"
  by (simp add: written_a_eq written_ab_eq reader_defs Atoi_0)

text \<open>
  C4: a reader at the end of the log should get \<^verbatim>\<open>ErrEndOfLog\<close>, and after one more
  record is written and flushed its next \<^verbatim>\<open>Read\<close> should return that record. With one
  record \<^verbatim>\<open>"a"\<close> in the log, \<^verbatim>\<open>NewReader\<close> at the writer's address does return
  \<^verbatim>\<open>ErrEndOfLog\<close>, but its buffered reader starts at the beginning of the segment:
  after \<^verbatim>\<open>"b"\<close> is written and flushed, \<^verbatim>\<open>Read\<close> returns \<^verbatim>\<open>"a"\<close>.
\<close>

theorem Read_after_end_of_log:
  "bind_outcome written_a (\<lambda>(wt, fs).
     bind_outcome (NewReader fs ''t'' (wt_address wt)) (\<lambda>(rd, err1).
     bind_outcome (Writer_Write fs wt [98]) (\<lambda>(err, wt, fs).
     bind_outcome (Writer_Flush fs wt) (\<lambda>(err, wt, fs).
     bind_outcome (Reader_Read fs rd) (\<lambda>((payload, err2), rd).
       Return (err1, payload, err2))))))
   = Return (Some ErrEndOfLog, Some [97], None)"
  by (simp add: written_a_eq reader_defs writer_defs Atoi_0 xxh32_a xxh32_b)

text \<open>
  C7, as stated, fails: the payload \<^verbatim>\<open>"This is only a test."\<close> has 20 bytes, not 21, and
  the record on disk starts with the length bytes \<^verbatim>\<open>14 00 00 00\<close>, not \<^verbatim>\<open>15 00 00 00\<close>.
\<close>

theorem test_record_counterexample:
  "length (bytes_of ''This is only a test.'') = 20
   \<and> length (bytes_of ''This is only a test.'') \<noteq> 21
   \<and> bind_outcome written_test (\<lambda>(wt, fs).
         Return (take 4 (contents fs ''/tmp/mylog/00000000000000000000.slab'')))
       = Return [0x14, 0, 0, 0]
   \<and> bind_outcome written_test (\<lambda>(wt, fs).
         Return (take 4 (contents fs ''/tmp/mylog/00000000000000000000.slab'')))
       \<noteq> Return [0x15, 0, 0, 0]"
  by (simp add: written_test_eq contents_def bytes_of_def)

text \<open>
  C7, amended: writing the payload \<^verbatim>\<open>"This is only a test."\<close> (20 bytes) to a fresh topic
  produces the record \<^verbatim>\<open>14 00 00 00\<close>, the 4 bytes \<^verbatim>\<open>e1 7f 21 8e\<close> of the checksum
  \<^verbatim>\<open>0x8e217fe1\<close>, little-endian, and the 20 bytes of the payload; \<^verbatim>\<open>Read\<close> at address 0 returns the payload unchanged, with
  no error.
\<close>

theorem test_record_round_trip:
  "bind_outcome written_test (\<lambda>(wt, fs).
     bind_outcome (NewReader fs ''/tmp/mylog'' 0) (\<lambda>(rd, err1).
     bind_outcome (Reader_Read fs rd) (\<lambda>((payload, err2), rd).
       Return (files fs, err1, payload, err2))))
   = Return ([(''/tmp/mylog/00000000000000000000.slab'',
               [0x14, 0, 0, 0] @ [0xe1, 0x7f, 0x21, 0x8e]
               @ bytes_of ''This is only a test.'')],
             None, Some (bytes_of ''This is only a test.''), None)
   \<and> length (bytes_of ''This is only a test.'') = 20
   \<and> Checksum32 (bytes_of ''This is only a test.'') = Return 0x8e217fe1
   \<and> PutUint32 0x8e217fe1 = [0xe1, 0x7f, 0x21, 0x8e]"
  by (simp add: written_test_eq reader_defs Atoi_0 Checksum32_def xxh32_test_bytes bytes_of_test
        PutUint32_def)

subsection \<open>Writing after Close\<close>








end
